theory Spec2Isabelle
  imports Complex_Main
begin

section \<open>Converting a JSON cookie export to a Netscape cookie file\<close>

text \<open>
  The script \<^verbatim>\<open>src/util/convert_cookies.py\<close> reads \<^verbatim>\<open>../config/cookies.json\<close>
  with \<^verbatim>\<open>json.load\<close>, writes a header and one tab-joined line per cookie to
  \<^verbatim>\<open>../config/cookies.txt\<close>, and prints a summary. The embedding below follows the
  script statement by statement. Every exception Python can raise on a value that
  \<^verbatim>\<open>json.load\<close> can return is a branch of the model, and so are the exceptions of
  the load itself and of writing a line that the encoding of the output file cannot
  express.
\<close>

subsection \<open>Python values produced by \<^verbatim>\<open>json.load\<close>\<close>

text \<open>
  A Python float is either a finite binary fraction \<open>m * 2^e\<close> (\<open>Finite m e\<close>), an
  infinity or NaN; \<^verbatim>\<open>json.load\<close> produces the last three for \<^verbatim>\<open>Infinity\<close>,
  \<^verbatim>\<open>-Infinity\<close>, \<^verbatim>\<open>NaN\<close> and for literals beyond the double range.
\<close>

datatype pyfloat = Finite int int | PosInf | NegInf | NaN

text \<open>
  A Python str is a sequence of Unicode code points, and \<^verbatim>\<open>json.load\<close> can return any
  of them, also a lone surrogate (from an escape of the code point D800, say). A str is
  therefore kept as the list of its code points. The literals of the script are written
  as Isabelle strings and embedded by \<open>lit\<close>, character by character.
\<close>

type_synonym pystr = "nat list"

definition lit :: "string \<Rightarrow> pystr" where
  "lit s = map of_char s"

text \<open>
  A dict is kept as its items in insertion order; a key is looked up with \<open>map_of\<close>.
  The keys of a dict are distinct (\<^verbatim>\<open>json.load\<close> keeps one value per key), so which
  of two equal keys \<open>map_of\<close> would find plays no role. An int is unbounded.
\<close>

datatype json =
    JNull
  | JBool bool
  | JInt int
  | JFloat pyfloat
  | JStr pystr
  | JList "json list"
  | JDict "(pystr \<times> json) list"

datatype exn =
    FileNotFoundError
  | PermissionError
  | JSONDecodeError
  | TypeError
  | AttributeError
  | ValueError
  | OverflowError
  | RecursionError
  | UnicodeDecodeError
  | UnicodeEncodeError

text \<open>
  The interpreter the script runs on, and what the script takes from its environment
  through it:

  \<^item> \<open>version_major\<close> is \<^verbatim>\<open>sys.version_info[0]\<close>. The model describes a run that
    has started: an interpreter that rejects the syntax of the script (the f-strings of
    lines 37 and 38 need Python 3.6) reports a syntax error and runs none of it.

  \<^item> \<open>json_loads\<close> is \<^verbatim>\<open>json.load\<close> on a file of the given content, and
    \<open>load_error\<close> the exception it raises where it returns nothing (\<open>None\<close>). The load
    decodes the file with the encoding of the locale and parses the text, so it can end
    in \<open>UnicodeDecodeError\<close>, in \<open>JSONDecodeError\<close>, in \<open>ValueError\<close> (an integer
    literal with more digits than the interpreter converts, 4300 by default) or in
    \<open>RecursionError\<close> (nesting beyond the interpreter's limit).

  \<^item> \<open>int_of_str\<close> is \<^verbatim>\<open>int\<close> on a \<^verbatim>\<open>str\<close> (\<open>None\<close>: \<open>ValueError\<close>); it
    depends on the interpreter's table of Unicode digits and on its limit on the number
    of digits.

  \<^item> \<open>encodable\<close> says which code points beyond ASCII the encoding of the output file
    can express. \<^verbatim>\<open>open(output_file, "w")\<close> names no encoding, so it is the encoding
    of the locale: UTF-8 expresses every code point but the surrogates, ASCII none
    beyond its own. The encodings Python accepts for a locale all express ASCII.
\<close>

record runtime =
  version_major :: nat
  json_loads :: "pystr \<Rightarrow> json option"
  load_error :: "pystr \<Rightarrow> exn"
  int_of_str :: "pystr \<Rightarrow> int option"
  encodable :: "nat \<Rightarrow> bool"

text \<open>
  The file system as the script sees it: the content of each existing file, whether
  \<^verbatim>\<open>open(p, "r")\<close> is permitted on an existing path, and whether
  \<^verbatim>\<open>open(p, "w")\<close> succeeds on a path. A content is a list of numbers. Of a file that
  is read it is what \<^verbatim>\<open>json.load\<close> finds there and has to decode and parse. Of the
  file the script writes, in text mode, it is the text written, code point by code
  point: the bytes that stand for the text on disk (the encoding, the line separator of
  the platform) are below the model, and what the encoding decides here is whether a
  character can be written at all. Of the failures of the operating system, those of
  opening a file are modelled; a device that fails while an open file is read, written
  or closed is not.
\<close>

record world =
  files :: "pystr \<rightharpoonup> pystr"
  readable :: "pystr \<Rightarrow> bool"
  writable :: "pystr \<Rightarrow> bool"

text \<open>What a run leaves behind: the file system, the lines printed, the exit status and
  the exception that ended the run, if one did.\<close>

record outcome =
  final :: world
  stdout :: "pystr list"
  status :: nat
  uncaught :: "exn option"

subsection \<open>Built-in operations the script uses\<close>

definition TAB :: pystr where
  "TAB = lit [CHR 0x09]"

definition NL :: pystr where
  "NL = lit [CHR 0x0A]"

definition bind_exn :: "exn + 'a \<Rightarrow> ('a \<Rightarrow> exn + 'b) \<Rightarrow> exn + 'b" where
  "bind_exn m f = (case m of Inl e \<Rightarrow> Inl e | Inr x \<Rightarrow> f x)"

text \<open>\<^verbatim>\<open>cookie.get(key, default)\<close>: only a dict has the method.\<close>

definition dict_get :: "(pystr \<times> json) list \<Rightarrow> pystr \<Rightarrow> json \<Rightarrow> json" where
  "dict_get kvs key dflt = (case map_of kvs key of None \<Rightarrow> dflt | Some v \<Rightarrow> v)"

fun py_get :: "json \<Rightarrow> pystr \<Rightarrow> json \<Rightarrow> exn + json" where
  "py_get (JDict kvs) key dflt = Inr (dict_get kvs key dflt)"
| "py_get _ key dflt = Inl AttributeError"

text \<open>\<^verbatim>\<open>domain.startswith(".")\<close>: only a str has the method.\<close>

fun py_startswith :: "json \<Rightarrow> pystr \<Rightarrow> exn + bool" where
  "py_startswith (JStr s) p = Inr (take (length p) s = p)"
| "py_startswith _ p = Inl AttributeError"

text \<open>Truth value of an object in a condition.\<close>

fun truthy :: "json \<Rightarrow> bool" where
  "truthy JNull = False"
| "truthy (JBool b) = b"
| "truthy (JInt i) = (i \<noteq> 0)"
| "truthy (JFloat (Finite m e)) = (m \<noteq> 0)"
| "truthy (JFloat _) = True"
| "truthy (JStr s) = (s \<noteq> [])"
| "truthy (JList xs) = (xs \<noteq> [])"
| "truthy (JDict kvs) = (kvs \<noteq> [])"

text \<open>\<^verbatim>\<open>int(x)\<close> on a finite float truncates towards zero.\<close>

definition float_trunc :: "int \<Rightarrow> int \<Rightarrow> int" where
  "float_trunc m e =
     (if 0 \<le> e then m * 2 ^ nat e
      else if 0 \<le> m then m div 2 ^ nat (- e)
      else - ((- m) div 2 ^ nat (- e)))"

fun py_int :: "runtime \<Rightarrow> json \<Rightarrow> exn + int" where
  "py_int rt (JInt i) = Inr i"
| "py_int rt (JBool b) = Inr (if b then 1 else 0)"
| "py_int rt (JFloat (Finite m e)) = Inr (float_trunc m e)"
| "py_int rt (JFloat NaN) = Inl ValueError"
| "py_int rt (JFloat _) = Inl OverflowError"
| "py_int rt (JStr s) = (case int_of_str rt s of None \<Rightarrow> Inl ValueError | Some i \<Rightarrow> Inr i)"
| "py_int rt _ = Inl TypeError"

text \<open>\<^verbatim>\<open>str(n)\<close> on an int: its decimal digits, with a minus sign when negative. The
  interpreter's limit on the digits of a conversion is no branch here: an int the loop
  hands to \<^verbatim>\<open>str\<close> comes from a literal that \<^verbatim>\<open>json.load\<close> or \<^verbatim>\<open>int\<close> has
  converted under the same limit, from a bool, or from a float (at most 309 digits).\<close>

function str_nat :: "nat \<Rightarrow> string" where
  "str_nat n = (if n < 10 then [''0123456789'' ! n] else str_nat (n div 10) @ [''0123456789'' ! (n mod 10)])"
  by pat_completeness auto
termination
  by (relation "measure id") auto

declare str_nat.simps [simp del]

definition py_str :: "int \<Rightarrow> pystr" where
  "py_str i = lit (if i < 0 then ''-'' @ str_nat (nat (- i)) else str_nat (nat i))"

text \<open>\<^verbatim>\<open>sep.join(items)\<close>: every item has to be a str.\<close>

fun py_join :: "pystr \<Rightarrow> json list \<Rightarrow> exn + pystr" where
  "py_join sep [] = Inr []"
| "py_join sep [JStr s] = Inr s"
| "py_join sep (JStr s # x # xs) = bind_exn (py_join sep (x # xs)) (\<lambda>r. Inr (s @ sep @ r))"
| "py_join sep _ = Inl TypeError"

text \<open>\<^verbatim>\<open>for cookie in cookies\<close>: a list yields its elements, a dict its keys, a str its
  characters, each a str of one code point; nothing else that \<^verbatim>\<open>json.load\<close> returns
  is iterable. \<^verbatim>\<open>len\<close> counts the same.\<close>

fun py_iter :: "json \<Rightarrow> exn + json list" where
  "py_iter (JList xs) = Inr xs"
| "py_iter (JDict kvs) = Inr (map (\<lambda>kv. JStr (fst kv)) kvs)"
| "py_iter (JStr s) = Inr (map (\<lambda>c. JStr [c]) s)"
| "py_iter _ = Inl TypeError"

fun py_len :: "json \<Rightarrow> exn + nat" where
  "py_len (JList xs) = Inr (length xs)"
| "py_len (JDict kvs) = Inr (length kvs)"
| "py_len (JStr s) = Inr (length s)"
| "py_len _ = Inl TypeError"

definition open_r :: "world \<Rightarrow> pystr \<Rightarrow> exn + pystr" where
  "open_r w p =
     (case files w p of
        None \<Rightarrow> Inl FileNotFoundError
      | Some text \<Rightarrow> if readable w p then Inr text else Inl PermissionError)"

text \<open>\<^verbatim>\<open>f.write(s)\<close> on the output file: the text is encoded as a whole before any of
  it joins what has been written, and a character the encoding cannot express raises
  \<open>UnicodeEncodeError\<close>. \<open>buf\<close> is the text written so far.\<close>

definition can_encode :: "runtime \<Rightarrow> pystr \<Rightarrow> bool" where
  "can_encode rt s = list_all (\<lambda>c. c < 128 \<or> encodable rt c) s"

definition py_write :: "runtime \<Rightarrow> pystr \<Rightarrow> pystr \<Rightarrow> exn + pystr" where
  "py_write rt buf s = (if can_encode rt s then Inr (buf @ s) else Inl UnicodeEncodeError)"

subsection \<open>The script\<close>

definition input_file :: pystr where
  "input_file = lit ''../config/cookies.json''"

definition output_file :: pystr where
  "output_file = lit ''../config/cookies.txt''"

definition header :: pystr where
  "header = lit ''# Netscape HTTP Cookie File'' @ NL @ NL"

text \<open>Lines 24 to 30: the seven items handed to \<^verbatim>\<open>join\<close>, in the order the script
  computes them.\<close>

definition cookie_items :: "runtime \<Rightarrow> json \<Rightarrow> exn + json list" where
  "cookie_items rt cookie =
     bind_exn (py_get cookie (lit ''domain'') (JStr (lit ''''))) (\<lambda>domain.
     bind_exn (py_startswith domain (lit ''.'')) (\<lambda>dot.
     let include_subdomain = lit (if dot then ''TRUE'' else ''FALSE'') in
     bind_exn (py_get cookie (lit ''path'') (JStr (lit ''/''))) (\<lambda>path.
     bind_exn (py_get cookie (lit ''secure'') (JBool False)) (\<lambda>sec.
     let secure = lit (if truthy sec then ''TRUE'' else ''FALSE'') in
     bind_exn (py_get cookie (lit ''expirationDate'') (JInt 2147483647)) (\<lambda>ed.
     bind_exn (py_int rt ed) (\<lambda>n.
     let expires = py_str n in
     bind_exn (py_get cookie (lit ''name'') (JStr (lit ''''))) (\<lambda>name.
     bind_exn (py_get cookie (lit ''value'') (JStr (lit ''''))) (\<lambda>val.
     Inr [domain, JStr include_subdomain, path, JStr secure, JStr expires, name, val]))))))))"

text \<open>Line 31: the text handed to \<^verbatim>\<open>f.write\<close> for one cookie.\<close>

definition cookie_line :: "runtime \<Rightarrow> json \<Rightarrow> exn + pystr" where
  "cookie_line rt cookie =
     bind_exn (cookie_items rt cookie) (\<lambda>items.
     bind_exn (py_join TAB items) (\<lambda>s. Inr (s @ NL)))"

text \<open>The body of the loop over the cookies: \<open>buf\<close> is what has been written so far.
  An exception, of computing the line or of writing it, leaves the loop with the text
  written before it.\<close>

fun write_loop :: "runtime \<Rightarrow> json list \<Rightarrow> pystr \<Rightarrow> pystr \<times> exn option" where
  "write_loop rt [] buf = (buf, None)"
| "write_loop rt (cookie # rest) buf =
     (case bind_exn (cookie_line rt cookie) (py_write rt buf) of
        Inl e \<Rightarrow> (buf, Some e)
      | Inr buf' \<Rightarrow> write_loop rt rest buf')"

text \<open>Lines 22 to 31: what the body of the \<^verbatim>\<open>with open(output_file, "w")\<close> block
  writes, and the exception that ends it, if one does. The header is written before the
  loop starts iterating.\<close>

definition with_body :: "runtime \<Rightarrow> json \<Rightarrow> pystr \<times> exn option" where
  "with_body rt cookies =
     (case py_write rt [] header of
        Inl e \<Rightarrow> ([], Some e)
      | Inr buf \<Rightarrow>
          (case py_iter cookies of
             Inl e \<Rightarrow> (buf, Some e)
           | Inr cs \<Rightarrow> write_loop rt cs buf))"

text \<open>Lines 21 to 31: opening the file for writing truncates it; leaving the block, also
  by an exception, closes it with what was written. When the file cannot be opened the
  block is not entered (\<open>PermissionError\<close> stands for the \<^verbatim>\<open>OSError\<close> raised).\<close>

definition write_output :: "runtime \<Rightarrow> json \<Rightarrow> world \<Rightarrow> world \<times> exn option" where
  "write_output rt cookies w =
     (if \<not> writable w output_file then (w, Some PermissionError)
      else case with_body rt cookies of
        (buf, r) \<Rightarrow> (w\<lparr>files := (files w)(output_file \<mapsto> buf)\<rparr>, r))"

text \<open>An exception nobody catches: the traceback goes to stderr, nothing more is printed
  and the interpreter exits with status 1.\<close>

definition crash :: "world \<Rightarrow> exn \<Rightarrow> outcome" where
  "crash w e = \<lparr>final = w, stdout = [], status = 1, uncaught = Some e\<rparr>"

text \<open>Lines 37 to 39.\<close>

definition summary :: "nat \<Rightarrow> pystr list" where
  "summary n =
     [lit ''Converted '' @ py_str (int n) @ lit '' cookies from JSON to Netscape format.'',
      lit ''Saved to '' @ output_file @ lit ''.'',
      lit ''Conversion complete.'']"

text \<open>The whole script. \<^verbatim>\<open>exit(1)\<close> ends the run with status 1; running off the end
  of the script ends it with status 0. When \<^verbatim>\<open>json.load\<close> raises, the input file is
  closed and nothing else has happened yet.\<close>

definition main :: "runtime \<Rightarrow> world \<Rightarrow> outcome" where
  "main rt w =
     (if version_major rt < 3 then
        \<lparr>final = w,
         stdout = [lit ''This script requires Python 3. Please upgrade your Python version.''],
         status = 1, uncaught = None\<rparr>
      else case open_r w input_file of
        Inl e \<Rightarrow> crash w e
      | Inr text \<Rightarrow>
          (case json_loads rt text of
             None \<Rightarrow> crash w (load_error rt text)
           | Some cookies \<Rightarrow>
               (case write_output rt cookies w of
                  (w', Some e) \<Rightarrow> crash w' e
                | (w', None) \<Rightarrow>
                    if \<not> truthy cookies then
                      \<lparr>final = w', stdout = [lit ''No cookies found in JSON. Aborting.''],
                       status = 1, uncaught = None\<rparr>
                    else
                      (case py_len cookies of
                         Inl e \<Rightarrow> crash w' e
                       | Inr n \<Rightarrow>
                           \<lparr>final = w', stdout = summary n, status = 0, uncaught = None\<rparr>))))"

subsection \<open>Notions the properties are stated with\<close>

text \<open>The number a finite float stands for.\<close>

definition float_value :: "int \<Rightarrow> int \<Rightarrow> real" where
  "float_value m e = of_int m * 2 powi e"

text \<open>The input the script is meant for (the CookieRecord of the specification): a
  mapping whose \<open>domain\<close>, \<open>path\<close>, \<open>name\<close> and \<open>value\<close>, where present, are strings,
  whose \<open>secure\<close> is a boolean and whose \<open>expirationDate\<close> is a number.\<close>

fun is_str :: "json \<Rightarrow> bool" where
  "is_str (JStr s) = True"
| "is_str _ = False"

fun is_bool :: "json \<Rightarrow> bool" where
  "is_bool (JBool b) = True"
| "is_bool _ = False"

fun is_number :: "json \<Rightarrow> bool" where
  "is_number (JInt i) = True"
| "is_number (JFloat x) = True"
| "is_number _ = False"

fun is_dict :: "json \<Rightarrow> bool" where
  "is_dict (JDict kvs) = True"
| "is_dict _ = False"

fun cookie_record :: "json \<Rightarrow> bool" where
  "cookie_record (JDict kvs) =
     (is_str (dict_get kvs (lit ''domain'') (JStr (lit '''')))
      \<and> is_str (dict_get kvs (lit ''path'') (JStr (lit ''/'')))
      \<and> is_bool (dict_get kvs (lit ''secure'') (JBool False))
      \<and> is_number (dict_get kvs (lit ''expirationDate'') (JInt 2147483647))
      \<and> is_str (dict_get kvs (lit ''name'') (JStr (lit '''')))
      \<and> is_str (dict_get kvs (lit ''value'') (JStr (lit ''''))))"
| "cookie_record _ = False"

text \<open>The expiration date of the record is not an infinity or NaN.\<close>

fun finite_number :: "json \<Rightarrow> bool" where
  "finite_number (JFloat (Finite m e)) = True"
| "finite_number (JFloat _) = False"
| "finite_number _ = True"

fun finite_expiry :: "json \<Rightarrow> bool" where
  "finite_expiry (JDict kvs) =
     finite_number (dict_get kvs (lit ''expirationDate'') (JInt 2147483647))"
| "finite_expiry _ = True"

text \<open>What is found under the key \<open>expirationDate\<close> is nothing, an int or a finite
  float.\<close>

fun plain_expiry :: "json option \<Rightarrow> bool" where
  "plain_expiry None = True"
| "plain_expiry (Some (JInt i)) = True"
| "plain_expiry (Some (JFloat (Finite m e))) = True"
| "plain_expiry (Some _) = False"

text \<open>Every character of the string fields of the record can be expressed in the
  encoding of the output file.\<close>

fun encodable_field :: "runtime \<Rightarrow> json \<Rightarrow> bool" where
  "encodable_field rt (JStr s) = (\<forall>c\<in>set s. c < 128 \<or> encodable rt c)"
| "encodable_field rt _ = True"

fun encodable_record :: "runtime \<Rightarrow> json \<Rightarrow> bool" where
  "encodable_record rt (JDict kvs) =
     (encodable_field rt (dict_get kvs (lit ''domain'') (JStr (lit '''')))
      \<and> encodable_field rt (dict_get kvs (lit ''path'') (JStr (lit ''/'')))
      \<and> encodable_field rt (dict_get kvs (lit ''name'') (JStr (lit '''')))
      \<and> encodable_field rt (dict_get kvs (lit ''value'') (JStr (lit ''''))))"
| "encodable_record rt _ = True"

text \<open>No string field of the record holds a line feed (code point 10).\<close>

fun one_line :: "json \<Rightarrow> bool" where
  "one_line (JStr s) = (10 \<notin> set s)"
| "one_line _ = True"

fun no_line_feed :: "json \<Rightarrow> bool" where
  "no_line_feed (JDict kvs) =
     (one_line (dict_get kvs (lit ''domain'') (JStr (lit '''')))
      \<and> one_line (dict_get kvs (lit ''path'') (JStr (lit ''/'')))
      \<and> one_line (dict_get kvs (lit ''name'') (JStr (lit '''')))
      \<and> one_line (dict_get kvs (lit ''value'') (JStr (lit ''''))))"
| "no_line_feed _ = True"

text \<open>The number of lines of a text: the number of line feeds in it.\<close>

definition num_lines :: "pystr \<Rightarrow> nat" where
  "num_lines text = length (filter (\<lambda>c. c = 10) text)"

text \<open>A value is an array of mappings.\<close>

fun array_of_mappings :: "json \<Rightarrow> bool" where
  "array_of_mappings (JList cs) = list_all is_dict cs"
| "array_of_mappings _ = False"

text \<open>A str is a decimal numeral, and the number it stands for.\<close>

definition is_digit :: "nat \<Rightarrow> bool" where
  "is_digit c = (48 \<le> c \<and> c \<le> 57)"

definition decimal_value :: "pystr \<Rightarrow> nat" where
  "decimal_value s = foldl (\<lambda>a c. 10 * a + (c - 48)) 0 s"

subsection \<open>Interpreters, file systems and inputs to run the script on\<close>

text \<open>\<^verbatim>\<open>int\<close> on a str of ASCII characters, as Python 3 defines it for base 10: white
  space around the numeral is dropped, one sign may precede the digits, single
  underscores may stand between digits, and a numeral of more than 4300 digits is
  refused. \<open>None\<close> is \<open>ValueError\<close>.\<close>

definition is_space :: "nat \<Rightarrow> bool" where
  "is_space c = (c = 32 \<or> 9 \<le> c \<and> c \<le> 13)"

definition strip :: "pystr \<Rightarrow> pystr" where
  "strip s = rev (dropWhile is_space (rev (dropWhile is_space s)))"

fun digits_of :: "pystr \<Rightarrow> nat list option" where
  "digits_of [] = None"
| "digits_of [c] = (if is_digit c then Some [c - 48] else None)"
| "digits_of (c # u # cs) =
     (if \<not> is_digit c then None
      else if u = 95 then map_option (Cons (c - 48)) (digits_of cs)
      else map_option (Cons (c - 48)) (digits_of (u # cs)))"

definition int_of_ascii :: "pystr \<Rightarrow> int option" where
  "int_of_ascii s =
     (let t = strip s;
          signed = (t \<noteq> [] \<and> (hd t = 45 \<or> hd t = 43))
      in case digits_of (if signed then tl t else t) of
           None \<Rightarrow> None
         | Some ds \<Rightarrow>
             if 4300 < length ds then None
             else Some ((if signed \<and> hd t = 45 then - 1 else 1)
                          * int (foldl (\<lambda>a d. 10 * a + d) 0 ds)))"

text \<open>The code points UTF-8 expresses: all but the surrogates.\<close>

definition utf8 :: "nat \<Rightarrow> bool" where
  "utf8 c = (c < 0xD800 \<or> 0xDFFF < c \<and> c \<le> 0x10FFFF)"

text \<open>An interpreter of major version 3 under a UTF-8 locale, whose \<^verbatim>\<open>json.load\<close> is
  given as a table from the content of a file to the value loaded; a content that is
  not in the table is taken not to be JSON. The same interpreter under a locale whose
  encoding is ASCII (the C locale, with the UTF-8 mode of the interpreter off). A str
  handed to \<^verbatim>\<open>int\<close> is taken to hold ASCII characters only (on others Python
  consults its table of Unicode digits).\<close>

definition python3 :: "(pystr \<times> json) list \<Rightarrow> runtime" where
  "python3 docs =
     \<lparr>version_major = 3, json_loads = map_of docs, load_error = (\<lambda>content. JSONDecodeError),
      int_of_str = int_of_ascii, encodable = utf8\<rparr>"


text \<open>A file system holding only the input file with the given content, where every path
  can be opened.\<close>

definition disk :: "pystr \<Rightarrow> world" where
  "disk text = \<lparr>files = [input_file \<mapsto> text], readable = (\<lambda>p. True), writable = (\<lambda>p. True)\<rparr>"

text \<open>The record of the example in the specification:
  \<^verbatim>\<open>{"domain": ".example.com", "name": "sid", "value": "abc123", "secure": true}\<close>.\<close>

definition example_cookie :: json where
  "example_cookie =
     JDict [(lit ''domain'', JStr (lit ''.example.com'')), (lit ''name'', JStr (lit ''sid'')),
            (lit ''value'', JStr (lit ''abc123'')), (lit ''secure'', JBool True)]"

text \<open>A record with every key, whose expiration date is the float nearest to
  1700000000.7:
  \<^verbatim>\<open>{"domain": "example.org", "path": "/a", "secure": false,
  "expirationDate": 1700000000.7, "name": "k", "value": "v"}\<close>.\<close>

definition full_cookie :: json where
  "full_cookie =
     JDict [(lit ''domain'', JStr (lit ''example.org'')), (lit ''path'', JStr (lit ''/a'')),
            (lit ''secure'', JBool False),
            (lit ''expirationDate'', JFloat (Finite 7130316802936013 (- 22))),
            (lit ''name'', JStr (lit ''k'')), (lit ''value'', JStr (lit ''v''))]"

text \<open>An input of two records and one of three:
  \<^verbatim>\<open>[{"domain": ".example.com", "name": "sid", "value": "abc123", "secure": true},
  {"domain": "example.org", "path": "/a", "secure": false,
  "expirationDate": 1700000000.7, "name": "k", "value": "v"}]\<close>, and the same with
  \<^verbatim>\<open>{}\<close> as a third record.\<close>

definition two_doc :: pystr where
  "two_doc = lit (''[{\"domain\": \".example.com\", \"name\": \"sid\", \"value\": \"abc123\", ''
     @ ''\"secure\": true}, {\"domain\": \"example.org\", \"path\": \"/a\", \"secure\": false, ''
     @ ''\"expirationDate\": 1700000000.7, \"name\": \"k\", \"value\": \"v\"}]'')"

definition three_doc :: pystr where
  "three_doc = lit (''[{\"domain\": \".example.com\", \"name\": \"sid\", \"value\": \"abc123\", ''
     @ ''\"secure\": true}, {\"domain\": \"example.org\", \"path\": \"/a\", \"secure\": false, ''
     @ ''\"expirationDate\": 1700000000.7, \"name\": \"k\", \"value\": \"v\"}, {}]'')"

text \<open>An input whose only record has a line feed in its value:
  \<^verbatim>\<open>[{"value": "a\nb"}]\<close>.\<close>

definition linefeed_doc :: pystr where
  "linefeed_doc = lit (''[{\"value\": \"a'' @ [CHR 0x5C] @ ''nb\"}]'')"

definition linefeed_cookie :: json where
  "linefeed_cookie = JDict [(lit ''value'', JStr (lit [CHR ''a'', CHR 0x0A, CHR ''b'']))]"



definition surrogate_doc :: pystr where
  "surrogate_doc = lit (''[{\"value\": \"'' @ [CHR 0x5C] @ ''ud800\"}]'')"

definition surrogate_cookie :: json where
  "surrogate_cookie = JDict [(lit ''value'', JStr [0xD800])]"

text \<open>An input that is not JSON, because of the literal \<^verbatim>\<open>NaN\<close>, and that
  \<^verbatim>\<open>json.load\<close> accepts all the same: \<^verbatim>\<open>[{"secure": NaN}]\<close>.\<close>

definition nan_doc :: pystr where
  "nan_doc = lit ''[{\"secure\": NaN}]''"

definition nan_cookie :: json where
  "nan_cookie = JDict [(lit ''secure'', JFloat NaN)]"

section \<open>Properties\<close>

subsection \<open>Literals\<close>

lemma lit_inject [simp]: "lit a = lit b \<longleftrightarrow> a = b"
  unfolding lit_def by (simp add: inj_map_eq_map inj_on_def)

lemma lit_Nil: "lit [] = []"
  by (simp add: lit_def)

lemma lit_Cons: "lit (c # s) = of_char c # lit s"
  by (simp add: lit_def)

lemma lit_eq_Nil [simp]: "lit a = [] \<longleftrightarrow> a = []" "[] = lit a \<longleftrightarrow> a = []"
  by (auto simp: lit_def)

lemma lit_append: "lit (a @ b) = lit a @ lit b"
  by (simp add: lit_def)

lemma length_lit [simp]: "length (lit a) = length a"
  by (simp add: lit_def)

lemma starts_with_dot:
  "take 1 d = lit ''.'' \<longleftrightarrow> (\<exists>r. d = lit ''.'' @ r)"
  "take (Suc 0) d = lit ''.'' \<longleftrightarrow> (\<exists>r. d = lit ''.'' @ r)"
  by (cases d; auto simp: lit_def)+

subsection \<open>\<^verbatim>\<open>str\<close> of an int is its decimal numeral\<close>

lemma digit_char_value: "k < 10 \<Longrightarrow> (of_char (''0123456789'' ! k) :: nat) = 48 + k"
proof -
  assume "k < 10"
  then have "k = 0 \<or> k = 1 \<or> k = 2 \<or> k = 3 \<or> k = 4 \<or> k = 5 \<or> k = 6 \<or> k = 7 \<or> k = 8 \<or> k = 9"
    by arith
  then show ?thesis
    by (elim disjE) simp_all
qed

lemma lit_str_nat:
  "n < 10 \<Longrightarrow> lit (str_nat n) = [48 + n]"
  "\<not> n < 10 \<Longrightarrow> lit (str_nat n) = lit (str_nat (n div 10)) @ [48 + n mod 10]"
proof -
  show "n < 10 \<Longrightarrow> lit (str_nat n) = [48 + n]"
    by (subst str_nat.simps) (simp add: lit_def digit_char_value)
  have "n mod 10 < 10" by simp
  then show "\<not> n < 10 \<Longrightarrow> lit (str_nat n) = lit (str_nat (n div 10)) @ [48 + n mod 10]"
    by (subst str_nat.simps) (simp add: lit_def digit_char_value)
qed

lemma decimal_value_append:
  "decimal_value (s @ [c]) = 10 * decimal_value s + (c - 48)"
  by (simp add: decimal_value_def)

lemma decimal_value_str_nat: "decimal_value (lit (str_nat n)) = n"
proof (induction n rule: str_nat.induct)
  case (1 n)
  show ?case
  proof (cases "n < 10")
    case True
    then show ?thesis
      by (simp add: lit_str_nat decimal_value_def)
  next
    case False
    then show ?thesis
      using 1 [OF False] by (simp add: lit_str_nat decimal_value_append)
  qed
qed

lemma str_nat_digits: "list_all is_digit (lit (str_nat n))"
proof (induction n rule: str_nat.induct)
  case (1 n)
  show ?case
  proof (cases "n < 10")
    case True
    then show ?thesis
      by (simp add: lit_str_nat is_digit_def)
  next
    case False
    have "n mod 10 < 10" by simp
    then show ?thesis
      using 1 [OF False] False by (simp add: lit_str_nat is_digit_def)
  qed
qed

lemma str_nat_not_Nil: "str_nat n \<noteq> []"
  by (subst str_nat.simps) simp

lemma str_nat_no_leading_zero: "0 < n \<Longrightarrow> hd (lit (str_nat n)) \<noteq> 48"
proof (induction n rule: str_nat.induct)
  case (1 n)
  show ?case
  proof (cases "n < 10")
    case True
    with 1(2) show ?thesis
      by (simp add: lit_str_nat)
  next
    case False
    then have "0 < n div 10"
      by simp
    from 1(1) [OF False this] show ?thesis
      using False by (simp add: lit_str_nat str_nat_not_Nil)
  qed
qed

text \<open>The text printed for a count: a decimal numeral without a sign, without a leading
  zero unless the count is zero, whose value is the count.\<close>

lemma py_str_count:
  "py_str (int n) \<noteq> []" "list_all is_digit (py_str (int n))"
  "0 < n \<Longrightarrow> hd (py_str (int n)) \<noteq> 48" "decimal_value (py_str (int n)) = n"
  by (simp_all add: py_str_def str_nat_not_Nil str_nat_digits str_nat_no_leading_zero
      decimal_value_str_nat)

lemma py_str_int: "py_str (int n) = lit (str_nat n)"
  by (simp add: py_str_def)

lemma py_str_negative: "i < 0 \<Longrightarrow> py_str i = lit ''-'' @ py_str (- i)"
  by (simp add: py_str_def lit_def)

lemma py_str_default: "py_str 2147483647 = lit ''2147483647''"
  by (simp add: py_str_def str_nat.simps)

subsection \<open>The line of one cookie\<close>

lemma bind_exn_Inr: "(bind_exn m f = Inr y) = (\<exists>x. m = Inr x \<and> f x = Inr y)"
  by (cases m) (simp_all add: bind_exn_def)

lemma py_join_single: "py_join sep [x] = Inr l \<longleftrightarrow> x = JStr l"
  by (cases x) auto

lemma py_join_Cons:
  "py_join sep (x # y # ys) = Inr l \<longleftrightarrow>
     (\<exists>s r. x = JStr s \<and> py_join sep (y # ys) = Inr r \<and> l = s @ sep @ r)"
  by (cases x) (auto simp: bind_exn_def split: sum.splits)

lemma py_join_line:
  "py_join sep [JStr a, JStr b, c, JStr d, JStr e, f, g] = Inr l \<longleftrightarrow>
     (\<exists>c' f' g'. c = JStr c' \<and> f = JStr f' \<and> g = JStr g'
        \<and> l = a @ sep @ b @ sep @ c' @ sep @ d @ sep @ e @ sep @ f' @ sep @ g')"
  by (auto simp: py_join_Cons py_join_single simp del: py_join.simps)

lemma cookie_items_dict:
  "cookie_items rt (JDict kvs) =
     (case dict_get kvs (lit ''domain'') (JStr (lit '''')) of
        JStr d \<Rightarrow>
          (case py_int rt (dict_get kvs (lit ''expirationDate'') (JInt 2147483647)) of
             Inl e \<Rightarrow> Inl e
           | Inr n \<Rightarrow>
               Inr [JStr d, JStr (lit (if take 1 d = lit ''.'' then ''TRUE'' else ''FALSE'')),
                    dict_get kvs (lit ''path'') (JStr (lit ''/'')),
                    JStr (lit (if truthy (dict_get kvs (lit ''secure'') (JBool False))
                               then ''TRUE'' else ''FALSE'')),
                    JStr (py_str n), dict_get kvs (lit ''name'') (JStr (lit '''')),
                    dict_get kvs (lit ''value'') (JStr (lit ''''))])
      | _ \<Rightarrow> Inl AttributeError)"
  by (simp add: cookie_items_def bind_exn_def Let_def split: json.split sum.split)

lemma cookie_items_not_dict:
  "\<forall>kvs. c \<noteq> JDict kvs \<Longrightarrow> cookie_items rt c = Inl AttributeError"
  by (cases c) (simp_all add: cookie_items_def bind_exn_def)

lemma cookie_items_Inr:
  "cookie_items rt c = Inr items \<longleftrightarrow>
     (\<exists>kvs d e. c = JDict kvs
        \<and> dict_get kvs (lit ''domain'') (JStr (lit '''')) = JStr d
        \<and> py_int rt (dict_get kvs (lit ''expirationDate'') (JInt 2147483647)) = Inr e
        \<and> items = [JStr d, JStr (lit (if take 1 d = lit ''.'' then ''TRUE'' else ''FALSE'')),
                    dict_get kvs (lit ''path'') (JStr (lit ''/'')),
                    JStr (lit (if truthy (dict_get kvs (lit ''secure'') (JBool False))
                               then ''TRUE'' else ''FALSE'')),
                    JStr (py_str e), dict_get kvs (lit ''name'') (JStr (lit '''')),
                    dict_get kvs (lit ''value'') (JStr (lit ''''))])"
proof (cases "\<exists>kvs. c = JDict kvs")
  case False
  then show ?thesis by (simp add: cookie_items_not_dict)
next
  case True
  then obtain kvs where c: "c = JDict kvs" by blast
  show ?thesis
  proof (cases "dict_get kvs (lit ''domain'') (JStr (lit ''''))")
    case (JStr d)
    show ?thesis
    proof (cases "py_int rt (dict_get kvs (lit ''expirationDate'') (JInt 2147483647))")
      case (Inl x)
      then show ?thesis by (simp add: c cookie_items_dict JStr)
    next
      case (Inr e)
      then show ?thesis by (auto simp: c cookie_items_dict JStr)
    qed
  qed (simp_all add: c cookie_items_dict)
qed

text \<open>The line of a cookie is computed exactly when it is a dict whose domain, path, name
  and value (or their defaults) are strings and whose expiration date converts to an int;
  it is then the seven fields joined by tabs, with a line feed at the end.\<close>

lemma cookie_line_Inr:
  "cookie_line rt c = Inr l \<longleftrightarrow>
     (\<exists>kvs d p e n v. c = JDict kvs
        \<and> dict_get kvs (lit ''domain'') (JStr (lit '''')) = JStr d
        \<and> dict_get kvs (lit ''path'') (JStr (lit ''/'')) = JStr p
        \<and> py_int rt (dict_get kvs (lit ''expirationDate'') (JInt 2147483647)) = Inr e
        \<and> dict_get kvs (lit ''name'') (JStr (lit '''')) = JStr n
        \<and> dict_get kvs (lit ''value'') (JStr (lit '''')) = JStr v
        \<and> l = d @ TAB @ lit (if take 1 d = lit ''.'' then ''TRUE'' else ''FALSE'') @ TAB @ p @ TAB
              @ lit (if truthy (dict_get kvs (lit ''secure'') (JBool False))
                     then ''TRUE'' else ''FALSE'') @ TAB
              @ py_str e @ TAB @ n @ TAB @ v @ NL)"
  (is "?L = ?R")
proof
  assume ?L
  then obtain items s where i: "cookie_items rt c = Inr items"
    and j: "py_join TAB items = Inr s" and l: "l = s @ NL"
    unfolding cookie_line_def bind_exn_Inr by auto
  from i obtain kvs d e where c: "c = JDict kvs"
    and d: "dict_get kvs (lit ''domain'') (JStr (lit '''')) = JStr d"
    and e: "py_int rt (dict_get kvs (lit ''expirationDate'') (JInt 2147483647)) = Inr e"
    and items: "items = [JStr d, JStr (lit (if take 1 d = lit ''.'' then ''TRUE'' else ''FALSE'')),
                    dict_get kvs (lit ''path'') (JStr (lit ''/'')),
                    JStr (lit (if truthy (dict_get kvs (lit ''secure'') (JBool False))
                               then ''TRUE'' else ''FALSE'')),
                    JStr (py_str e), dict_get kvs (lit ''name'') (JStr (lit '''')),
                    dict_get kvs (lit ''value'') (JStr (lit ''''))]"
    unfolding cookie_items_Inr by blast
  from j obtain p n v where p: "dict_get kvs (lit ''path'') (JStr (lit ''/'')) = JStr p"
    and n: "dict_get kvs (lit ''name'') (JStr (lit '''')) = JStr n"
    and v: "dict_get kvs (lit ''value'') (JStr (lit '''')) = JStr v"
    and s: "s = d @ TAB @ lit (if take 1 d = lit ''.'' then ''TRUE'' else ''FALSE'') @ TAB @ p @ TAB
              @ lit (if truthy (dict_get kvs (lit ''secure'') (JBool False))
                     then ''TRUE'' else ''FALSE'') @ TAB
              @ py_str e @ TAB @ n @ TAB @ v"
    unfolding items py_join_line by blast
  show ?R
    using c d p e n v by (simp add: l s)
next
  assume ?R
  then obtain kvs d p e n v where c: "c = JDict kvs"
    and d: "dict_get kvs (lit ''domain'') (JStr (lit '''')) = JStr d"
    and p: "dict_get kvs (lit ''path'') (JStr (lit ''/'')) = JStr p"
    and e: "py_int rt (dict_get kvs (lit ''expirationDate'') (JInt 2147483647)) = Inr e"
    and n: "dict_get kvs (lit ''name'') (JStr (lit '''')) = JStr n"
    and v: "dict_get kvs (lit ''value'') (JStr (lit '''')) = JStr v"
    and l: "l = d @ TAB @ lit (if take 1 d = lit ''.'' then ''TRUE'' else ''FALSE'') @ TAB @ p @ TAB
              @ lit (if truthy (dict_get kvs (lit ''secure'') (JBool False))
                     then ''TRUE'' else ''FALSE'') @ TAB
              @ py_str e @ TAB @ n @ TAB @ v @ NL"
    by blast
  have i: "cookie_items rt c =
             Inr [JStr d, JStr (lit (if take 1 d = lit ''.'' then ''TRUE'' else ''FALSE'')),
                    JStr p,
                    JStr (lit (if truthy (dict_get kvs (lit ''secure'') (JBool False))
                               then ''TRUE'' else ''FALSE'')),
                    JStr (py_str e), JStr n, JStr v]"
    unfolding cookie_items_Inr using c d e p n v by simp
  have j: "py_join TAB [JStr d, JStr (lit (if take 1 d = lit ''.'' then ''TRUE'' else ''FALSE'')),
                    JStr p,
                    JStr (lit (if truthy (dict_get kvs (lit ''secure'') (JBool False))
                               then ''TRUE'' else ''FALSE'')),
                    JStr (py_str e), JStr n, JStr v]
         = Inr (d @ TAB @ lit (if take 1 d = lit ''.'' then ''TRUE'' else ''FALSE'') @ TAB @ p @ TAB
              @ lit (if truthy (dict_get kvs (lit ''secure'') (JBool False))
                     then ''TRUE'' else ''FALSE'') @ TAB
              @ py_str e @ TAB @ n @ TAB @ v)"
    unfolding py_join_line by simp
  show ?L
    unfolding cookie_line_def bind_exn_Inr i using j l by simp
qed

text \<open>What \<^verbatim>\<open>int\<close> makes of what is found under \<open>expirationDate\<close>, when that is nothing,
  an int or a finite float.\<close>

lemma plain_expiry_int:
  assumes "plain_expiry (map_of kvs (lit ''expirationDate''))"
  shows "\<exists>n. py_int rt (dict_get kvs (lit ''expirationDate'') (JInt 2147483647)) = Inr n"
proof (cases "map_of kvs (lit ''expirationDate'')")
  case None
  then show ?thesis by (simp add: dict_get_def)
next
  case (Some x)
  with assms have "plain_expiry (Some x)"
    by simp
  have "\<exists>n. py_int rt x = Inr n"
  proof (cases x)
    case (JFloat f)
    with \<open>plain_expiry (Some x)\<close> show ?thesis
      by (cases f) simp_all
  qed (use \<open>plain_expiry (Some x)\<close> in simp_all)
  then show ?thesis by (simp add: dict_get_def Some)
qed

text \<open>The items of a record whose domain is missing or a string and whose expiration
  date is missing, an int or a finite float.\<close>

lemma record_items:
  assumes "map_of kvs (lit ''domain'') = None \<and> d = [] \<or> map_of kvs (lit ''domain'') = Some (JStr d)"
    and "plain_expiry (map_of kvs (lit ''expirationDate''))"
  shows "\<exists>n. cookie_items rt (JDict kvs) =
           Inr [JStr d, JStr (lit (if \<exists>r. d = lit ''.'' @ r then ''TRUE'' else ''FALSE'')),
                dict_get kvs (lit ''path'') (JStr (lit ''/'')),
                JStr (lit (if truthy (dict_get kvs (lit ''secure'') (JBool False))
                           then ''TRUE'' else ''FALSE'')),
                JStr (py_str n), dict_get kvs (lit ''name'') (JStr (lit '''')),
                dict_get kvs (lit ''value'') (JStr (lit ''''))]"
proof -
  from assms(1) have d: "dict_get kvs (lit ''domain'') (JStr (lit '''')) = JStr d"
    by (auto simp: dict_get_def lit_Nil)
  from plain_expiry_int [OF assms(2)] obtain n
    where "py_int rt (dict_get kvs (lit ''expirationDate'') (JInt 2147483647)) = Inr n" ..
  then show ?thesis
    by (intro exI [of _ n]) (simp add: cookie_items_dict d starts_with_dot)
qed

text \<open>The line of the example record, as the specification gives it.\<close>

lemma example_cookie_items:
  "cookie_items rt example_cookie =
     Inr [JStr (lit ''.example.com''), JStr (lit ''TRUE''), JStr (lit ''/''), JStr (lit ''TRUE''),
          JStr (lit ''2147483647''), JStr (lit ''sid''), JStr (lit ''abc123'')]"
  by (simp add: example_cookie_def cookie_items_dict dict_get_def py_str_default, simp add: lit_def)

lemma example_cookie_line:
  "cookie_line rt example_cookie =
     Inr (lit ''.example.com'' @ TAB @ lit ''TRUE'' @ TAB @ lit ''/'' @ TAB @ lit ''TRUE'' @ TAB
          @ lit ''2147483647'' @ TAB @ lit ''sid'' @ TAB @ lit ''abc123'' @ NL)"
  by (simp add: cookie_line_def example_cookie_items bind_exn_def)

text \<open>
  C1. For every record whose domain is a string or missing (then it counts as the empty
  string) and whose expiration date is missing, an int or a finite float, the items that
  make up its line are computed; the first is the domain and the second, the
  includeSubdomains field, is \<open>TRUE\<close> if the domain starts with a dot and \<open>FALSE\<close> if it
  does not, so a missing or empty domain gives \<open>FALSE\<close>. Whenever the line is computed,
  it starts with these two fields, each followed by a tab.
\<close>

theorem include_subdomains_iff_leading_dot:
  assumes "map_of kvs (lit ''domain'') = None \<and> d = []
           \<or> map_of kvs (lit ''domain'') = Some (JStr d)"
    and "plain_expiry (map_of kvs (lit ''expirationDate''))"
  shows "\<exists>items. cookie_items rt (JDict kvs) = Inr items
           \<and> length items = 7
           \<and> items ! 0 = JStr d
           \<and> items ! 1 = JStr (lit (if \<exists>r. d = lit ''.'' @ r then ''TRUE'' else ''FALSE''))
           \<and> (items ! 1 = JStr (lit ''TRUE'') \<longleftrightarrow> (\<exists>r. d = lit ''.'' @ r))
           \<and> (\<forall>l. cookie_line rt (JDict kvs) = Inr l \<longrightarrow>
                (\<exists>rest. l = d @ TAB
                   @ lit (if \<exists>r. d = lit ''.'' @ r then ''TRUE'' else ''FALSE'') @ TAB @ rest))"
proof -
  from record_items [OF assms, of rt] obtain n where
    items: "cookie_items rt (JDict kvs) =
           Inr [JStr d, JStr (lit (if \<exists>r. d = lit ''.'' @ r then ''TRUE'' else ''FALSE'')),
                dict_get kvs (lit ''path'') (JStr (lit ''/'')),
                JStr (lit (if truthy (dict_get kvs (lit ''secure'') (JBool False))
                           then ''TRUE'' else ''FALSE'')),
                JStr (py_str n), dict_get kvs (lit ''name'') (JStr (lit '''')),
                dict_get kvs (lit ''value'') (JStr (lit ''''))]" ..
  from assms(1) have d: "dict_get kvs (lit ''domain'') (JStr (lit '''')) = JStr d"
    by (auto simp: dict_get_def lit_Nil)
  have line: "\<exists>rest. l = d @ TAB
                @ lit (if \<exists>r. d = lit ''.'' @ r then ''TRUE'' else ''FALSE'') @ TAB @ rest"
    if "cookie_line rt (JDict kvs) = Inr l" for l
  proof -
    from that obtain d' rest where "dict_get kvs (lit ''domain'') (JStr (lit '''')) = JStr d'"
      and "l = d' @ TAB @ lit (if take 1 d' = lit ''.'' then ''TRUE'' else ''FALSE'') @ TAB @ rest"
      unfolding cookie_line_Inr by blast
    with d show ?thesis
      by (simp add: starts_with_dot)
  qed
  show ?thesis
    unfolding items using line by simp
qed

theorem include_subdomains_iff_leading_dot_witness:
  "map_of [(lit ''domain'', JStr (lit ''.example.com'')), (lit ''name'', JStr (lit ''sid'')),
           (lit ''value'', JStr (lit ''abc123'')), (lit ''secure'', JBool True)] (lit ''domain'')
     = Some (JStr (lit ''.example.com''))
   \<and> plain_expiry (map_of [(lit ''domain'', JStr (lit ''.example.com'')),
        (lit ''name'', JStr (lit ''sid'')), (lit ''value'', JStr (lit ''abc123'')),
        (lit ''secure'', JBool True)] (lit ''expirationDate''))
   \<and> (\<exists>items. cookie_items (python3 []) example_cookie = Inr items
         \<and> items ! 0 = JStr (lit ''.example.com'') \<and> items ! 1 = JStr (lit ''TRUE''))
   \<and> cookie_line (python3 []) example_cookie
       = Inr (lit ''.example.com'' @ TAB @ lit ''TRUE'' @ TAB @ lit ''/'' @ TAB @ lit ''TRUE'' @ TAB
              @ lit ''2147483647'' @ TAB @ lit ''sid'' @ TAB @ lit ''abc123'' @ NL)
   \<and> (\<exists>rest. lit ''.example.com'' @ TAB @ lit ''TRUE'' @ TAB @ lit ''/'' @ TAB @ lit ''TRUE'' @ TAB
              @ lit ''2147483647'' @ TAB @ lit ''sid'' @ TAB @ lit ''abc123'' @ NL
          = lit ''.example.com'' @ TAB @ lit ''TRUE'' @ TAB @ rest)
   \<and> (\<exists>items. cookie_items (python3 []) (JDict [(lit ''domain'', JStr (lit ''example.com''))])
                 = Inr items
         \<and> items ! 0 = JStr (lit ''example.com'') \<and> items ! 1 = JStr (lit ''FALSE''))
   \<and> (\<exists>items. cookie_items (python3 []) (JDict [(lit ''domain'', JStr [])]) = Inr items
         \<and> items ! 0 = JStr [] \<and> items ! 1 = JStr (lit ''FALSE''))
   \<and> map_of ([] :: (pystr \<times> json) list) (lit ''domain'') = None
   \<and> (\<exists>items. cookie_items (python3 []) (JDict []) = Inr items
         \<and> items ! 0 = JStr [] \<and> items ! 1 = JStr (lit ''FALSE''))"
proof -
  have dot: "\<exists>r. lit ''.example.com'' = lit ''.'' @ r"
    by (simp add: starts_with_dot [symmetric] lit_def)
  have no_dot: "\<not> (\<exists>r. lit ''example.com'' = lit ''.'' @ r)" "\<not> (\<exists>r. ([] :: pystr) = lit ''.'' @ r)"
    by (simp_all add: starts_with_dot [symmetric] lit_def)
  have a: "map_of [(lit ''domain'', JStr (lit ''.example.com'')), (lit ''name'', JStr (lit ''sid'')),
              (lit ''value'', JStr (lit ''abc123'')), (lit ''secure'', JBool True)] (lit ''domain'')
             = None \<and> lit ''.example.com'' = []
           \<or> map_of [(lit ''domain'', JStr (lit ''.example.com'')), (lit ''name'', JStr (lit ''sid'')),
              (lit ''value'', JStr (lit ''abc123'')), (lit ''secure'', JBool True)] (lit ''domain'')
             = Some (JStr (lit ''.example.com''))"
    by simp
  have a': "plain_expiry (map_of [(lit ''domain'', JStr (lit ''.example.com'')),
              (lit ''name'', JStr (lit ''sid'')), (lit ''value'', JStr (lit ''abc123'')),
              (lit ''secure'', JBool True)] (lit ''expirationDate''))"
    by simp
  have b: "map_of [(lit ''domain'', JStr (lit ''example.com''))] (lit ''domain'') = None
             \<and> lit ''example.com'' = []
           \<or> map_of [(lit ''domain'', JStr (lit ''example.com''))] (lit ''domain'')
               = Some (JStr (lit ''example.com''))"
    and b': "plain_expiry (map_of [(lit ''domain'', JStr (lit ''example.com''))]
               (lit ''expirationDate''))"
    by simp_all
  have c: "map_of [(lit ''domain'', JStr [])] (lit ''domain'') = None \<and> ([] :: pystr) = []
           \<or> map_of [(lit ''domain'', JStr [])] (lit ''domain'') = Some (JStr [])"
    and c': "plain_expiry (map_of [(lit ''domain'', JStr [])] (lit ''expirationDate''))"
    by simp_all
  have e: "map_of ([] :: (pystr \<times> json) list) (lit ''domain'') = None \<and> ([] :: pystr) = []
           \<or> map_of ([] :: (pystr \<times> json) list) (lit ''domain'') = Some (JStr [])"
    and e': "plain_expiry (map_of ([] :: (pystr \<times> json) list) (lit ''expirationDate''))"
    by simp_all
  note first = include_subdomains_iff_leading_dot [OF a a', of "python3 []", folded example_cookie_def]
  from first have 1: "\<exists>items. cookie_items (python3 []) example_cookie = Inr items
         \<and> items ! 0 = JStr (lit ''.example.com'') \<and> items ! 1 = JStr (lit ''TRUE'')"
    using dot by auto
  from first have 2: "\<exists>rest. lit ''.example.com'' @ TAB @ lit ''TRUE'' @ TAB @ lit ''/'' @ TAB
              @ lit ''TRUE'' @ TAB @ lit ''2147483647'' @ TAB @ lit ''sid'' @ TAB @ lit ''abc123'' @ NL
          = lit ''.example.com'' @ TAB @ lit ''TRUE'' @ TAB @ rest"
    using dot by (auto simp: example_cookie_line)
  from include_subdomains_iff_leading_dot [OF b b', of "python3 []"]
  have 3: "\<exists>items. cookie_items (python3 []) (JDict [(lit ''domain'', JStr (lit ''example.com''))])
                 = Inr items
         \<and> items ! 0 = JStr (lit ''example.com'') \<and> items ! 1 = JStr (lit ''FALSE'')"
    using no_dot by auto
  from include_subdomains_iff_leading_dot [OF c c', of "python3 []"]
  have 4: "\<exists>items. cookie_items (python3 []) (JDict [(lit ''domain'', JStr [])]) = Inr items
         \<and> items ! 0 = JStr [] \<and> items ! 1 = JStr (lit ''FALSE'')"
    using no_dot by auto
  from include_subdomains_iff_leading_dot [OF e e', of "python3 []"]
  have 5: "\<exists>items. cookie_items (python3 []) (JDict []) = Inr items
         \<and> items ! 0 = JStr [] \<and> items ! 1 = JStr (lit ''FALSE'')"
    using no_dot by auto
  from 1 2 3 4 5 show ?thesis
    by (simp add: example_cookie_line)
qed

subsection \<open>The fields that have defaults\<close>

text \<open>\<^verbatim>\<open>int\<close> on a finite float is the truncation of its value towards zero: the floor of
  a value that is not negative, the ceiling of a negative one.\<close>

lemma float_trunc_value:
  "float_trunc m e = (if 0 \<le> m then \<lfloor>float_value m e\<rfloor> else \<lceil>float_value m e\<rceil>)"
proof (cases "0 \<le> e")
  case True
  then have "float_value m e = of_int (m * 2 ^ nat e)"
    by (simp add: float_value_def power_int_def)
  then show ?thesis
    using True by (simp add: float_trunc_def del: of_int_mult of_int_power)
next
  case False
  then have v: "float_value m e = of_int m / of_int (2 ^ nat (- e))"
    by (simp add: float_value_def power_int_def field_simps)
  show ?thesis
  proof (cases "0 \<le> m")
    case True
    then show ?thesis
      using False unfolding v floor_divide_of_int_eq by (simp add: float_trunc_def)
  next
    case m: False
    then show ?thesis
      using False unfolding v ceiling_divide_eq_div by (simp add: float_trunc_def)
  qed
qed

lemma float_value_zero: "float_value m e = 0 \<longleftrightarrow> m = 0"
  by (simp add: float_value_def)

text \<open>The double nearest to 1700000000.7 is \<open>7130316802936013 * 2^-22\<close>: the mantissa has
  53 bits and the value is within half a unit in the last place.\<close>

lemma nearest_double_1700000000_7:
  "2 ^ 52 \<le> (7130316802936013::int) \<and> (7130316802936013::int) < 2 ^ 53
   \<and> \<bar>float_value 7130316802936013 (- 22) - 17000000007 / 10\<bar> \<le> 2 powi (- 23)"
  by (simp add: float_value_def power_int_def field_simps)

lemma py_str_1700000000: "py_str 1700000000 = lit ''1700000000''"
  by (simp add: py_str_def str_nat.simps)

lemma float_trunc_1700000000_7: "float_trunc 7130316802936013 (- 22) = 1700000000"
  by (simp add: float_trunc_def)

lemma default_items:
  "cookie_items rt (JDict []) =
     Inr [JStr (lit ''''), JStr (lit ''FALSE''), JStr (lit ''/''), JStr (lit ''FALSE''),
          JStr (lit ''2147483647''), JStr (lit ''''), JStr (lit '''')]"
  by (simp add: cookie_items_dict dict_get_def py_str_default)

text \<open>
  C3. For a record whose domain is a string (so that the script reaches line 28): when
  the \<open>expirationDate\<close> key is missing the record is written with the expires field
  \<open>2147483647\<close>; when it is a finite float the record is written with the decimal digits
  of the float's value truncated towards zero.
\<close>

theorem expires_default_and_truncation:
  assumes "dict_get kvs (lit ''domain'') (JStr (lit '''')) = JStr d"
  shows "(map_of kvs (lit ''expirationDate'') = None \<longrightarrow>
            (\<exists>items. cookie_items rt (JDict kvs) = Inr items
               \<and> items ! 4 = JStr (lit ''2147483647'')))
       \<and> (map_of kvs (lit ''expirationDate'') = Some (JFloat (Finite m e)) \<longrightarrow>
            (\<exists>items. cookie_items rt (JDict kvs) = Inr items
               \<and> items ! 4 = JStr (py_str (if 0 \<le> m then \<lfloor>float_value m e\<rfloor>
                                             else \<lceil>float_value m e\<rceil>))))"
proof (intro conjI impI)
  assume "map_of kvs (lit ''expirationDate'') = None"
  then have "dict_get kvs (lit ''expirationDate'') (JInt 2147483647) = JInt 2147483647"
    by (simp add: dict_get_def)
  then show "\<exists>items. cookie_items rt (JDict kvs) = Inr items
               \<and> items ! 4 = JStr (lit ''2147483647'')"
    using assms by (simp add: cookie_items_dict py_str_default)
next
  assume "map_of kvs (lit ''expirationDate'') = Some (JFloat (Finite m e))"
  then have "dict_get kvs (lit ''expirationDate'') (JInt 2147483647) = JFloat (Finite m e)"
    by (simp add: dict_get_def)
  then show "\<exists>items. cookie_items rt (JDict kvs) = Inr items
               \<and> items ! 4 = JStr (py_str (if 0 \<le> m then \<lfloor>float_value m e\<rfloor>
                                             else \<lceil>float_value m e\<rceil>))"
    using assms by (simp add: cookie_items_dict float_trunc_value)
qed

theorem expires_default_and_truncation_witness:
  "dict_get [(lit ''expirationDate'', JFloat (Finite 7130316802936013 (- 22)))]
       (lit ''domain'') (JStr (lit ''''))
     = JStr (lit '''')
   \<and> (\<exists>items. cookie_items (python3 [])
                 (JDict [(lit ''expirationDate'', JFloat (Finite 7130316802936013 (- 22)))])
               = Inr items
          \<and> items ! 4 = JStr (lit ''1700000000''))
   \<and> (\<exists>items. cookie_items (python3 []) (JDict []) = Inr items
          \<and> items ! 4 = JStr (lit ''2147483647''))"
proof -
  have d1: "dict_get [(lit ''expirationDate'', JFloat (Finite 7130316802936013 (- 22)))]
              (lit ''domain'') (JStr (lit '''')) = JStr (lit '''')"
    by (simp add: dict_get_def)
  have d2: "dict_get [] (lit ''domain'') (JStr (lit '''')) = JStr (lit '''')"
    by (simp add: dict_get_def)
  have t: "(if (0::int) \<le> 7130316802936013 then \<lfloor>float_value 7130316802936013 (- 22)\<rfloor>
            else \<lceil>float_value 7130316802936013 (- 22)\<rceil>) = 1700000000"
    unfolding float_trunc_value [symmetric] by (rule float_trunc_1700000000_7)
  show ?thesis
    using expires_default_and_truncation [OF d1, of "python3 []" 7130316802936013 "- 22"]
      expires_default_and_truncation [OF d2, of "python3 []"]
    unfolding t by (simp add: d1 py_str_1700000000)
qed

text \<open>
  C4. For every record whose domain is a string or missing and whose expiration date is
  missing, an int or a finite float, the items that make up its line are computed; with
  no \<open>path\<close> key the path field is \<open>/\<close> (with one, it is what the key holds), and with no
  \<open>secure\<close> key the secure field is \<open>FALSE\<close>. Whenever the line is computed, these are
  its third and fourth field.
\<close>

theorem path_and_secure_defaults:
  assumes "map_of kvs (lit ''domain'') = None \<and> d = []
           \<or> map_of kvs (lit ''domain'') = Some (JStr d)"
    and "plain_expiry (map_of kvs (lit ''expirationDate''))"
  shows "\<exists>items. cookie_items rt (JDict kvs) = Inr items
           \<and> length items = 7
           \<and> (map_of kvs (lit ''path'') = None \<longrightarrow> items ! 2 = JStr (lit ''/''))
           \<and> (\<forall>p. map_of kvs (lit ''path'') = Some p \<longrightarrow> items ! 2 = p)
           \<and> (map_of kvs (lit ''secure'') = None \<longrightarrow> items ! 3 = JStr (lit ''FALSE''))
           \<and> (\<forall>l. cookie_line rt (JDict kvs) = Inr l \<longrightarrow>
                (\<exists>f p s rest. items ! 1 = JStr f \<and> items ! 2 = JStr p \<and> items ! 3 = JStr s
                   \<and> l = d @ TAB @ f @ TAB @ p @ TAB @ s @ TAB @ rest))"
proof -
  from record_items [OF assms, of rt] obtain n where
    items: "cookie_items rt (JDict kvs) =
           Inr [JStr d, JStr (lit (if \<exists>r. d = lit ''.'' @ r then ''TRUE'' else ''FALSE'')),
                dict_get kvs (lit ''path'') (JStr (lit ''/'')),
                JStr (lit (if truthy (dict_get kvs (lit ''secure'') (JBool False))
                           then ''TRUE'' else ''FALSE'')),
                JStr (py_str n), dict_get kvs (lit ''name'') (JStr (lit '''')),
                dict_get kvs (lit ''value'') (JStr (lit ''''))]" ..
  from assms(1) have d: "dict_get kvs (lit ''domain'') (JStr (lit '''')) = JStr d"
    by (auto simp: dict_get_def lit_Nil)
  have line: "\<exists>p rest. dict_get kvs (lit ''path'') (JStr (lit ''/'')) = JStr p
                \<and> l = d @ TAB @ lit (if \<exists>r. d = lit ''.'' @ r then ''TRUE'' else ''FALSE'') @ TAB
                      @ p @ TAB
                      @ lit (if truthy (dict_get kvs (lit ''secure'') (JBool False))
                             then ''TRUE'' else ''FALSE'') @ TAB @ rest"
    if "cookie_line rt (JDict kvs) = Inr l" for l
  proof -
    from that obtain d' p rest where "dict_get kvs (lit ''domain'') (JStr (lit '''')) = JStr d'"
      and "dict_get kvs (lit ''path'') (JStr (lit ''/'')) = JStr p"
      and "l = d' @ TAB @ lit (if take 1 d' = lit ''.'' then ''TRUE'' else ''FALSE'') @ TAB
                @ p @ TAB
                @ lit (if truthy (dict_get kvs (lit ''secure'') (JBool False))
                       then ''TRUE'' else ''FALSE'') @ TAB @ rest"
      unfolding cookie_line_Inr by blast
    with d show ?thesis
      by (simp add: starts_with_dot)
  qed
  let ?items = "[JStr d, JStr (lit (if \<exists>r. d = lit ''.'' @ r then ''TRUE'' else ''FALSE'')),
                dict_get kvs (lit ''path'') (JStr (lit ''/'')),
                JStr (lit (if truthy (dict_get kvs (lit ''secure'') (JBool False))
                           then ''TRUE'' else ''FALSE'')),
                JStr (py_str n), dict_get kvs (lit ''name'') (JStr (lit '''')),
                dict_get kvs (lit ''value'') (JStr (lit ''''))]"
  have 1: "length ?items = 7"
    by simp
  have 2: "map_of kvs (lit ''path'') = None \<longrightarrow> ?items ! 2 = JStr (lit ''/'')"
    by (simp add: dict_get_def)
  have 3: "\<forall>p. map_of kvs (lit ''path'') = Some p \<longrightarrow> ?items ! 2 = p"
    by (simp add: dict_get_def)
  have 4: "map_of kvs (lit ''secure'') = None \<longrightarrow> ?items ! 3 = JStr (lit ''FALSE'')"
    by (simp add: dict_get_def)
  have 5: "\<forall>l. cookie_line rt (JDict kvs) = Inr l \<longrightarrow>
             (\<exists>f p s rest. ?items ! 1 = JStr f \<and> ?items ! 2 = JStr p \<and> ?items ! 3 = JStr s
                \<and> l = d @ TAB @ f @ TAB @ p @ TAB @ s @ TAB @ rest)"
  proof (intro allI impI)
    fix l
    assume "cookie_line rt (JDict kvs) = Inr l"
    from line [OF this] obtain p rest where
      "dict_get kvs (lit ''path'') (JStr (lit ''/'')) = JStr p"
      "l = d @ TAB @ lit (if \<exists>r. d = lit ''.'' @ r then ''TRUE'' else ''FALSE'') @ TAB
             @ p @ TAB
             @ lit (if truthy (dict_get kvs (lit ''secure'') (JBool False))
                    then ''TRUE'' else ''FALSE'') @ TAB @ rest"
      by blast
    then show "\<exists>f p s rest. ?items ! 1 = JStr f \<and> ?items ! 2 = JStr p \<and> ?items ! 3 = JStr s
                \<and> l = d @ TAB @ f @ TAB @ p @ TAB @ s @ TAB @ rest"
      by simp
  qed
  from items 1 2 3 4 5 show ?thesis
    by (intro exI [of _ ?items] conjI)
qed

lemma full_cookie_items:
  "cookie_items rt full_cookie =
     Inr [JStr (lit ''example.org''), JStr (lit ''FALSE''), JStr (lit ''/a''), JStr (lit ''FALSE''),
          JStr (lit ''1700000000''), JStr (lit ''k''), JStr (lit ''v'')]"
  by (simp add: full_cookie_def cookie_items_dict dict_get_def float_trunc_1700000000_7
      py_str_1700000000, simp add: lit_def)

lemma full_cookie_line:
  "cookie_line rt full_cookie =
     Inr (lit ''example.org'' @ TAB @ lit ''FALSE'' @ TAB @ lit ''/a'' @ TAB @ lit ''FALSE'' @ TAB
          @ lit ''1700000000'' @ TAB @ lit ''k'' @ TAB @ lit ''v'' @ NL)"
  by (simp add: cookie_line_def full_cookie_items bind_exn_def)

theorem path_and_secure_defaults_witness:
  "map_of ([] :: (pystr \<times> json) list) (lit ''domain'') = None
   \<and> plain_expiry (map_of ([] :: (pystr \<times> json) list) (lit ''expirationDate''))
   \<and> map_of ([] :: (pystr \<times> json) list) (lit ''path'') = None
   \<and> map_of ([] :: (pystr \<times> json) list) (lit ''secure'') = None
   \<and> (\<exists>items. cookie_items (python3 []) (JDict []) = Inr items
         \<and> items ! 2 = JStr (lit ''/'') \<and> items ! 3 = JStr (lit ''FALSE''))
   \<and> (\<exists>items. cookie_items (python3 []) example_cookie = Inr items
         \<and> items ! 2 = JStr (lit ''/''))
   \<and> map_of [(lit ''path'', JStr (lit ''/x''))] (lit ''path'') = Some (JStr (lit ''/x''))
   \<and> map_of [(lit ''path'', JStr (lit ''/x''))] (lit ''secure'') = None
   \<and> (\<exists>items. cookie_items (python3 []) (JDict [(lit ''path'', JStr (lit ''/x''))]) = Inr items
         \<and> items ! 2 = JStr (lit ''/x'') \<and> items ! 3 = JStr (lit ''FALSE''))
   \<and> cookie_line (python3 []) (JDict [(lit ''path'', JStr (lit ''/x''))])
       = Inr (TAB @ lit ''FALSE'' @ TAB @ lit ''/x'' @ TAB @ lit ''FALSE'' @ TAB
              @ lit ''2147483647'' @ TAB @ TAB @ NL)
   \<and> (\<exists>f p s rest. p = lit ''/x'' \<and> s = lit ''FALSE''
         \<and> TAB @ lit ''FALSE'' @ TAB @ lit ''/x'' @ TAB @ lit ''FALSE'' @ TAB
             @ lit ''2147483647'' @ TAB @ TAB @ NL
           = [] @ TAB @ f @ TAB @ p @ TAB @ s @ TAB @ rest)"
proof -
  have a: "map_of ([] :: (pystr \<times> json) list) (lit ''domain'') = None \<and> ([] :: pystr) = []
           \<or> map_of ([] :: (pystr \<times> json) list) (lit ''domain'') = Some (JStr [])"
    and a': "plain_expiry (map_of ([] :: (pystr \<times> json) list) (lit ''expirationDate''))"
    by simp_all
  have b: "map_of [(lit ''domain'', JStr (lit ''.example.com'')), (lit ''name'', JStr (lit ''sid'')),
              (lit ''value'', JStr (lit ''abc123'')), (lit ''secure'', JBool True)] (lit ''domain'')
             = None \<and> lit ''.example.com'' = []
           \<or> map_of [(lit ''domain'', JStr (lit ''.example.com'')), (lit ''name'', JStr (lit ''sid'')),
              (lit ''value'', JStr (lit ''abc123'')), (lit ''secure'', JBool True)] (lit ''domain'')
             = Some (JStr (lit ''.example.com''))"
    and b': "plain_expiry (map_of [(lit ''domain'', JStr (lit ''.example.com'')),
              (lit ''name'', JStr (lit ''sid'')), (lit ''value'', JStr (lit ''abc123'')),
              (lit ''secure'', JBool True)] (lit ''expirationDate''))"
    by simp_all
  have c: "map_of [(lit ''path'', JStr (lit ''/x''))] (lit ''domain'') = None \<and> ([] :: pystr) = []
           \<or> map_of [(lit ''path'', JStr (lit ''/x''))] (lit ''domain'') = Some (JStr [])"
    and c': "plain_expiry (map_of [(lit ''path'', JStr (lit ''/x''))] (lit ''expirationDate''))"
    by simp_all
  have l: "cookie_line (python3 []) (JDict [(lit ''path'', JStr (lit ''/x''))])
       = Inr (TAB @ lit ''FALSE'' @ TAB @ lit ''/x'' @ TAB @ lit ''FALSE'' @ TAB
              @ lit ''2147483647'' @ TAB @ TAB @ NL)"
    by (simp add: cookie_line_def cookie_items_dict dict_get_def py_str_default bind_exn_def,
        simp add: lit_def)
  from path_and_secure_defaults [OF a a', of "python3 []"]
  have 1: "\<exists>items. cookie_items (python3 []) (JDict []) = Inr items
         \<and> items ! 2 = JStr (lit ''/'') \<and> items ! 3 = JStr (lit ''FALSE'')"
    by auto
  from path_and_secure_defaults [OF b b', of "python3 []", folded example_cookie_def]
  have 2: "\<exists>items. cookie_items (python3 []) example_cookie = Inr items
         \<and> items ! 2 = JStr (lit ''/'')"
    by auto
  note third = path_and_secure_defaults [OF c c', of "python3 []"]
  from third
  have 3: "\<exists>items. cookie_items (python3 []) (JDict [(lit ''path'', JStr (lit ''/x''))]) = Inr items
         \<and> items ! 2 = JStr (lit ''/x'') \<and> items ! 3 = JStr (lit ''FALSE'')"
    by auto
  from third
  have 4: "\<exists>f p s rest. p = lit ''/x'' \<and> s = lit ''FALSE''
         \<and> TAB @ lit ''FALSE'' @ TAB @ lit ''/x'' @ TAB @ lit ''FALSE'' @ TAB
             @ lit ''2147483647'' @ TAB @ TAB @ NL
           = [] @ TAB @ f @ TAB @ p @ TAB @ s @ TAB @ rest"
    unfolding l by auto
  from 1 2 3 4 show ?thesis
    by (simp add: l)
qed

text \<open>
  C9. For every record whose domain is a string or missing, whose expiration date is
  missing, an int or a finite float, and which has a \<open>secure\<close> key, the items that make
  up its line are computed and the secure field is \<open>FALSE\<close> exactly when the value under
  the key is \<open>null\<close>, \<open>false\<close>, an int or float of value zero, or an empty string, list
  or mapping, and \<open>TRUE\<close> for every other value, whatever its type: so the string
  \<open>false\<close> and a non-zero number give \<open>TRUE\<close>.
\<close>

theorem secure_by_truthiness:
  assumes "map_of kvs (lit ''domain'') = None \<and> d = []
           \<or> map_of kvs (lit ''domain'') = Some (JStr d)"
    and "plain_expiry (map_of kvs (lit ''expirationDate''))"
    and "map_of kvs (lit ''secure'') = Some v"
  shows "\<exists>items. cookie_items rt (JDict kvs) = Inr items
           \<and> length items = 7
           \<and> (items ! 3 = JStr (lit ''TRUE'') \<or> items ! 3 = JStr (lit ''FALSE''))
           \<and> (items ! 3 = JStr (lit ''FALSE'') \<longleftrightarrow>
                v = JNull \<or> v = JBool False \<or> v = JInt 0
                \<or> (\<exists>m e. v = JFloat (Finite m e) \<and> float_value m e = 0)
                \<or> v = JStr [] \<or> v = JList [] \<or> v = JDict [])"
proof -
  from record_items [OF assms(1,2), of rt] obtain n where
    items: "cookie_items rt (JDict kvs) =
           Inr [JStr d, JStr (lit (if \<exists>r. d = lit ''.'' @ r then ''TRUE'' else ''FALSE'')),
                dict_get kvs (lit ''path'') (JStr (lit ''/'')),
                JStr (lit (if truthy (dict_get kvs (lit ''secure'') (JBool False))
                           then ''TRUE'' else ''FALSE'')),
                JStr (py_str n), dict_get kvs (lit ''name'') (JStr (lit '''')),
                dict_get kvs (lit ''value'') (JStr (lit ''''))]" ..
  have v: "dict_get kvs (lit ''secure'') (JBool False) = v"
    using assms(3) by (simp add: dict_get_def)
  have "\<not> truthy v \<longleftrightarrow>
          v = JNull \<or> v = JBool False \<or> v = JInt 0
          \<or> (\<exists>m e. v = JFloat (Finite m e) \<and> float_value m e = 0)
          \<or> v = JStr [] \<or> v = JList [] \<or> v = JDict []"
  proof (cases v)
    case (JFloat f)
    then show ?thesis
      by (cases f) (simp_all add: float_value_zero)
  qed simp_all
  then show ?thesis
    unfolding items v by auto
qed

theorem secure_by_truthiness_witness:
  "map_of [(lit ''secure'', JStr (lit ''false''))] (lit ''secure'') = Some (JStr (lit ''false''))
   \<and> map_of [(lit ''secure'', JStr (lit ''false''))] (lit ''domain'') = None
   \<and> plain_expiry (map_of [(lit ''secure'', JStr (lit ''false''))] (lit ''expirationDate''))
   \<and> (\<exists>items. cookie_items (python3 []) (JDict [(lit ''secure'', JStr (lit ''false''))]) = Inr items
         \<and> items ! 3 = JStr (lit ''TRUE''))
   \<and> (\<exists>items. cookie_items (python3 []) (JDict [(lit ''secure'', JInt 1)]) = Inr items
         \<and> items ! 3 = JStr (lit ''TRUE''))
   \<and> (\<exists>items. cookie_items (python3 []) (JDict [(lit ''secure'', JFloat (Finite 1 (- 1)))])
                 = Inr items
         \<and> items ! 3 = JStr (lit ''TRUE''))
   \<and> (\<exists>items. cookie_items (python3 []) (JDict [(lit ''secure'', JBool True)]) = Inr items
         \<and> items ! 3 = JStr (lit ''TRUE''))
   \<and> (\<exists>items. cookie_items (python3 []) (JDict [(lit ''secure'', JBool False)]) = Inr items
         \<and> items ! 3 = JStr (lit ''FALSE''))
   \<and> (\<exists>items. cookie_items (python3 []) (JDict [(lit ''secure'', JInt 0)]) = Inr items
         \<and> items ! 3 = JStr (lit ''FALSE''))
   \<and> (\<exists>items. cookie_items (python3 []) (JDict [(lit ''secure'', JStr [])]) = Inr items
         \<and> items ! 3 = JStr (lit ''FALSE''))
   \<and> (\<exists>items. cookie_items (python3 []) (JDict [(lit ''secure'', JNull)]) = Inr items
         \<and> items ! 3 = JStr (lit ''FALSE''))"
proof -
  have h: "map_of [(lit ''secure'', v)] (lit ''domain'') = None \<and> ([] :: pystr) = []
           \<or> map_of [(lit ''secure'', v)] (lit ''domain'') = Some (JStr [])"
    "plain_expiry (map_of [(lit ''secure'', v)] (lit ''expirationDate''))"
    "map_of [(lit ''secure'', v)] (lit ''secure'') = Some v" for v
    by simp_all
  have half: "float_value 1 (- 1) \<noteq> 0"
    by (simp add: float_value_zero)
  from secure_by_truthiness [OF h, where v = "JStr (lit ''false'')" and rt = "python3 []"]
  have 1: "\<exists>items. cookie_items (python3 []) (JDict [(lit ''secure'', JStr (lit ''false''))])
                 = Inr items \<and> items ! 3 = JStr (lit ''TRUE'')"
    by auto
  from secure_by_truthiness [OF h, where v = "JInt 1" and rt = "python3 []"]
  have 2: "\<exists>items. cookie_items (python3 []) (JDict [(lit ''secure'', JInt 1)]) = Inr items
         \<and> items ! 3 = JStr (lit ''TRUE'')"
    by auto
  from secure_by_truthiness [OF h, where v = "JFloat (Finite 1 (- 1))" and rt = "python3 []"]
  have 3: "\<exists>items. cookie_items (python3 []) (JDict [(lit ''secure'', JFloat (Finite 1 (- 1)))])
                 = Inr items \<and> items ! 3 = JStr (lit ''TRUE'')"
    using half by auto
  from secure_by_truthiness [OF h, where v = "JBool True" and rt = "python3 []"]
  have 4: "\<exists>items. cookie_items (python3 []) (JDict [(lit ''secure'', JBool True)]) = Inr items
         \<and> items ! 3 = JStr (lit ''TRUE'')"
    by auto
  from secure_by_truthiness [OF h, where v = "JBool False" and rt = "python3 []"]
  have 5: "\<exists>items. cookie_items (python3 []) (JDict [(lit ''secure'', JBool False)]) = Inr items
         \<and> items ! 3 = JStr (lit ''FALSE'')"
    by auto
  from secure_by_truthiness [OF h, where v = "JInt 0" and rt = "python3 []"]
  have 6: "\<exists>items. cookie_items (python3 []) (JDict [(lit ''secure'', JInt 0)]) = Inr items
         \<and> items ! 3 = JStr (lit ''FALSE'')"
    by auto
  from secure_by_truthiness [OF h, where v = "JStr []" and rt = "python3 []"]
  have 7: "\<exists>items. cookie_items (python3 []) (JDict [(lit ''secure'', JStr [])]) = Inr items
         \<and> items ! 3 = JStr (lit ''FALSE'')"
    by auto
  from secure_by_truthiness [OF h, where v = JNull and rt = "python3 []"]
  have 8: "\<exists>items. cookie_items (python3 []) (JDict [(lit ''secure'', JNull)]) = Inr items
         \<and> items ! 3 = JStr (lit ''FALSE'')"
    by auto
  from 1 2 3 4 5 6 7 8 show ?thesis
    by simp
qed

subsection \<open>Writing to the output file\<close>

lemma can_encode_simps [simp]:
  "can_encode rt []" "can_encode rt (a @ b) \<longleftrightarrow> can_encode rt a \<and> can_encode rt b"
  "can_encode rt TAB" "can_encode rt NL" "can_encode rt (lit ''TRUE'')"
  "can_encode rt (lit ''FALSE'')" "can_encode rt header"
  by (simp_all add: can_encode_def TAB_def NL_def header_def lit_def)

lemma can_encode_iff: "can_encode rt s \<longleftrightarrow> (\<forall>c\<in>set s. c < 128 \<or> encodable rt c)"
  by (simp add: can_encode_def list_all_iff)

lemma can_encode_py_str [simp]: "can_encode rt (py_str i)"
proof -
  have "can_encode rt (lit (str_nat k))" for k
    using str_nat_digits [of k] by (auto simp: can_encode_iff list_all_iff is_digit_def)
  then show ?thesis
    by (simp add: py_str_def lit_Cons can_encode_def)
qed

lemma py_write_header: "py_write rt [] header = Inr header"
  by (simp add: py_write_def)

lemma with_body_iter:
  "with_body rt cookies =
     (case py_iter cookies of
        Inl e \<Rightarrow> (header, Some e)
      | Inr cs \<Rightarrow> write_loop rt cs header)"
  by (simp add: with_body_def py_write_header)

subsection \<open>The loop and the run as a whole\<close>

lemma write_loop_step:
  "cookie_line rt c = Inr l \<Longrightarrow> can_encode rt l
     \<Longrightarrow> write_loop rt (c # cs) buf = write_loop rt cs (buf @ l)"
  "cookie_line rt c = Inr l \<Longrightarrow> \<not> can_encode rt l
     \<Longrightarrow> write_loop rt (c # cs) buf = (buf, Some UnicodeEncodeError)"
  "cookie_line rt c = Inl e \<Longrightarrow> write_loop rt (c # cs) buf = (buf, Some e)"
  by (simp_all add: bind_exn_def py_write_def)

lemma write_loop_ok:
  "map (cookie_line rt) cs = map Inr ls \<Longrightarrow> \<forall>l\<in>set ls. can_encode rt l
     \<Longrightarrow> write_loop rt cs buf = (buf @ concat ls, None)"
proof (induction cs arbitrary: ls buf)
  case Nil
  then show ?case by simp
next
  case (Cons c cs)
  then obtain l ls' where ls: "ls = l # ls'" and l: "cookie_line rt c = Inr l"
    and rest: "map (cookie_line rt) cs = map Inr ls'"
    by (cases ls) auto
  from Cons.prems(2) have e: "can_encode rt l" "\<forall>l\<in>set ls'. can_encode rt l"
    by (simp_all add: ls)
  show ?case
    using Cons.IH [OF rest e(2)] by (simp add: write_loop_step(1) [OF l e(1)] ls del: write_loop.simps)
qed

lemma all_lines:
  "(\<forall>c\<in>set cs. \<exists>l. cookie_line rt c = Inr l \<and> can_encode rt l)
     \<Longrightarrow> \<exists>ls. map (cookie_line rt) cs = map Inr ls \<and> (\<forall>l\<in>set ls. can_encode rt l)"
proof (induction cs)
  case Nil
  then show ?case by simp
next
  case (Cons c cs)
  then obtain l ls where "cookie_line rt c = Inr l" "can_encode rt l"
    "map (cookie_line rt) cs = map Inr ls" "\<forall>l\<in>set ls. can_encode rt l"
    by auto
  then have "map (cookie_line rt) (c # cs) = map Inr (l # ls) \<and> (\<forall>l\<in>set (l # ls). can_encode rt l)"
    by simp
  then show ?case by blast
qed

lemma write_loop_raises:
  "\<exists>c\<in>set cs. \<forall>l. cookie_line rt c = Inr l \<longrightarrow> \<not> can_encode rt l
     \<Longrightarrow> \<exists>buf' e. write_loop rt cs buf = (buf', Some e)"
proof (induction cs arbitrary: buf)
  case Nil
  then show ?case by simp
next
  case (Cons c cs)
  show ?case
  proof (cases "cookie_line rt c")
    case (Inl e)
    then show ?thesis by (simp add: write_loop_step del: write_loop.simps)
  next
    case (Inr l)
    show ?thesis
    proof (cases "can_encode rt l")
      case False
      with Inr show ?thesis by (simp add: write_loop_step del: write_loop.simps)
    next
      case True
      with Inr Cons.prems have "\<exists>c\<in>set cs. \<forall>l. cookie_line rt c = Inr l \<longrightarrow> \<not> can_encode rt l"
        by auto
      from Cons.IH [OF this] show ?thesis
        by (simp add: write_loop_step(1) [OF Inr True] del: write_loop.simps)
    qed
  qed
qed

lemma cookie_line_not_dict: "\<not> is_dict c \<Longrightarrow> cookie_line rt c = Inl AttributeError"
  by (cases c) (simp_all add: cookie_line_def cookie_items_def bind_exn_def)

text \<open>What a run does once the input has been loaded: with an output file that cannot
  be opened it ends in the exception; otherwise the body of the block decides.\<close>

lemma main_unwritable:
  assumes "3 \<le> version_major rt" and "open_r w input_file = Inr text"
    and "json_loads rt text = Some cookies" and "\<not> writable w output_file"
  shows "main rt w = crash w PermissionError"
  using assms by (simp add: main_def write_output_def)

lemma main_loaded:
  assumes "3 \<le> version_major rt" and "open_r w input_file = Inr text"
    and "json_loads rt text = Some cookies" and "writable w output_file"
    and "with_body rt cookies = (buf, r)"
  shows "main rt w =
     (case r of
        Some e \<Rightarrow> crash (w\<lparr>files := (files w)(output_file \<mapsto> buf)\<rparr>) e
      | None \<Rightarrow>
          if \<not> truthy cookies then
            \<lparr>final = w\<lparr>files := (files w)(output_file \<mapsto> buf)\<rparr>,
             stdout = [lit ''No cookies found in JSON. Aborting.''], status = 1,
             uncaught = None\<rparr>
          else
            (case py_len cookies of
               Inl e \<Rightarrow> crash (w\<lparr>files := (files w)(output_file \<mapsto> buf)\<rparr>) e
             | Inr n \<Rightarrow>
                 \<lparr>final = w\<lparr>files := (files w)(output_file \<mapsto> buf)\<rparr>,
                  stdout = summary n, status = 0, uncaught = None\<rparr>))"
  using assms by (simp add: main_def write_output_def split: option.split)

lemma main_success:
  assumes "3 \<le> version_major rt" and "open_r w input_file = Inr text"
    and "json_loads rt text = Some (JList cs)" and "cs \<noteq> []" and "writable w output_file"
    and "map (cookie_line rt) cs = map Inr ls" and "\<forall>l\<in>set ls. can_encode rt l"
  shows "main rt w =
     \<lparr>final = w\<lparr>files := (files w)(output_file \<mapsto> header @ concat ls)\<rparr>,
      stdout = summary (length cs), status = 0, uncaught = None\<rparr>"
proof -
  have "with_body rt (JList cs) = (header @ concat ls, None)"
    by (simp add: with_body_iter write_loop_ok [OF assms(6,7)])
  from main_loaded [OF assms(1,2,3,5) this] show ?thesis
    using assms(4) by simp
qed

lemma summary_neq [simp]:
  "summary n \<noteq> []" "summary n \<noteq> [x]" "[] \<noteq> summary n" "[x] \<noteq> summary n"
  by (simp_all add: summary_def)

text \<open>The fixtures satisfy what the lemmas above ask for.\<close>

lemma fixture_facts:
  "3 \<le> version_major (python3 docs)"
  "json_loads (python3 docs) = map_of docs"
  "open_r (disk text) input_file = Inr text"
  "writable (disk text) output_file"
  "files (disk text) output_file = None"
  "load_error (python3 docs) text = JSONDecodeError"
  "encodable (python3 docs) = utf8"
  "int_of_str (python3 docs) = int_of_ascii"
  by (simp_all add: python3_def disk_def open_r_def input_file_def output_file_def)


text \<open>\<^verbatim>\<open>int\<close> of the fixtures on some strs, and a record whose expiration date is a
  str of digits.\<close>

lemma int_of_ascii_examples:
  "int_of_ascii (lit ''1700000000'') = Some 1700000000"
  "int_of_ascii (lit '' -1_000 '') = Some (- 1000)"
  "int_of_ascii (lit ''0012'') = Some 12"
  "int_of_ascii (lit ''12.5'') = None"
  "int_of_ascii (lit ''1__0'') = None"
  "int_of_ascii (lit ''+ 1'') = None"
  "int_of_ascii (lit '''') = None"
  by (simp_all add: int_of_ascii_def strip_def lit_def is_space_def is_digit_def)

lemma string_expiry_line:
  "cookie_line (python3 docs) (JDict [(lit ''expirationDate'', JStr (lit ''1700000000''))]) =
     Inr (TAB @ lit ''FALSE'' @ TAB @ lit ''/'' @ TAB @ lit ''FALSE'' @ TAB
          @ lit ''1700000000'' @ TAB @ TAB @ NL)"
  "cookie_line (python3 docs) (JDict [(lit ''expirationDate'', JStr (lit ''soon''))]) =
     Inl ValueError"
proof -
  have "int_of_ascii (lit ''soon'') = None"
    by (simp add: int_of_ascii_def strip_def lit_def is_space_def is_digit_def)
  then show "cookie_line (python3 docs) (JDict [(lit ''expirationDate'', JStr (lit ''soon''))]) =
     Inl ValueError"
    by (simp add: cookie_line_def cookie_items_dict dict_get_def bind_exn_def fixture_facts)
  have "py_str 1700000000 = lit ''1700000000''"
    by (simp add: py_str_def str_nat.simps)
  then show "cookie_line (python3 docs)
       (JDict [(lit ''expirationDate'', JStr (lit ''1700000000''))]) =
     Inr (TAB @ lit ''FALSE'' @ TAB @ lit ''/'' @ TAB @ lit ''FALSE'' @ TAB
          @ lit ''1700000000'' @ TAB @ TAB @ NL)"
    by (simp add: cookie_line_def cookie_items_dict dict_get_def bind_exn_def fixture_facts
        int_of_ascii_examples lit_Nil)
qed

subsection \<open>Failures before and after the conversion\<close>

text \<open>
  C7. On a Python 3 interpreter, when the input path does not exist or cannot be read,
  the run ends at once in the exception \<^verbatim>\<open>open\<close> raises (\<open>FileNotFoundError\<close> for a missing
  path, \<open>PermissionError\<close> for an unreadable one): exit status 1, nothing printed, no
  file touched, no second attempt.
\<close>

theorem missing_or_unreadable_input_is_fatal:
  assumes "3 \<le> version_major rt"
    and "files w input_file = None \<or> \<not> readable w input_file"
  shows "main rt w =
           \<lparr>final = w, stdout = [], status = 1,
            uncaught = Some (if files w input_file = None then FileNotFoundError
                             else PermissionError)\<rparr>"
  using assms by (auto simp: main_def open_r_def crash_def split: option.split)

theorem missing_or_unreadable_input_is_fatal_witness:
  "3 \<le> version_major (python3 [])
   \<and> files \<lparr>files = Map.empty, readable = (\<lambda>p. True), writable = (\<lambda>p. True)\<rparr> input_file = None
   \<and> main (python3 []) \<lparr>files = Map.empty, readable = (\<lambda>p. True), writable = (\<lambda>p. True)\<rparr>
       = \<lparr>final = \<lparr>files = Map.empty, readable = (\<lambda>p. True), writable = (\<lambda>p. True)\<rparr>,
          stdout = [], status = 1, uncaught = Some FileNotFoundError\<rparr>
   \<and> \<not> readable \<lparr>files = [input_file \<mapsto> lit ''[]''], readable = (\<lambda>p. False),
                   writable = (\<lambda>p. True)\<rparr> input_file
   \<and> main (python3 [])
         \<lparr>files = [input_file \<mapsto> lit ''[]''], readable = (\<lambda>p. False), writable = (\<lambda>p. True)\<rparr>
       = \<lparr>final = \<lparr>files = [input_file \<mapsto> lit ''[]''], readable = (\<lambda>p. False),
                    writable = (\<lambda>p. True)\<rparr>,
          stdout = [], status = 1, uncaught = Some PermissionError\<rparr>"
proof -
  have v: "3 \<le> version_major (python3 [])"
    by (rule fixture_facts)
  have a: "files \<lparr>files = Map.empty, readable = (\<lambda>p. True), writable = (\<lambda>p. True)\<rparr> input_file = None
           \<or> \<not> readable \<lparr>files = Map.empty, readable = (\<lambda>p. True), writable = (\<lambda>p. True)\<rparr> input_file"
    by simp
  have b: "files \<lparr>files = [input_file \<mapsto> lit ''[]''], readable = (\<lambda>p. False),
                  writable = (\<lambda>p. True)\<rparr> input_file = None
           \<or> \<not> readable \<lparr>files = [input_file \<mapsto> lit ''[]''], readable = (\<lambda>p. False),
                           writable = (\<lambda>p. True)\<rparr> input_file"
    by simp
  show ?thesis
    using missing_or_unreadable_input_is_fatal [OF v a]
      missing_or_unreadable_input_is_fatal [OF v b]
    by (simp add: v)
qed

text \<open>
  C5. On a Python 3 interpreter, when the input file loads as an empty array the run is a
  failure: the exit status is 1 and no converted count is printed. With an output file
  that can be opened the run prints \<open>No cookies found in JSON. Aborting.\<close> and leaves
  the output file holding the two-line header, written before the emptiness check; with
  one that cannot be opened the run ends in that exception and touches nothing.
\<close>

theorem empty_array_is_failure:
  assumes "3 \<le> version_major rt" and "open_r w input_file = Inr text"
    and "json_loads rt text = Some (JList [])"
  shows "status (main rt w) = 1
       \<and> (\<forall>n. stdout (main rt w) \<noteq> summary n)
       \<and> (if writable w output_file then
            main rt w =
              \<lparr>final = w\<lparr>files := (files w)(output_file \<mapsto>
                                  lit ''# Netscape HTTP Cookie File'' @ NL @ NL)\<rparr>,
               stdout = [lit ''No cookies found in JSON. Aborting.''], status = 1,
               uncaught = None\<rparr>
          else
            main rt w = \<lparr>final = w, stdout = [], status = 1, uncaught = Some PermissionError\<rparr>)"
proof (cases "writable w output_file")
  case True
  have "with_body rt (JList []) = (header, None)"
    by (simp add: with_body_iter)
  from main_loaded [OF assms True this] show ?thesis
    using True by (simp add: header_def)
next
  case False
  from main_unwritable [OF assms False] show ?thesis
    using False by (simp add: crash_def)
qed

theorem empty_array_is_failure_witness:
  "3 \<le> version_major (python3 [(lit ''[]'', JList [])])
   \<and> open_r (disk (lit ''[]'')) input_file = Inr (lit ''[]'')
   \<and> json_loads (python3 [(lit ''[]'', JList [])]) (lit ''[]'') = Some (JList [])
   \<and> status (main (python3 [(lit ''[]'', JList [])]) (disk (lit ''[]''))) = 1
   \<and> stdout (main (python3 [(lit ''[]'', JList [])]) (disk (lit ''[]'')))
       = [lit ''No cookies found in JSON. Aborting.'']
   \<and> files (final (main (python3 [(lit ''[]'', JList [])]) (disk (lit ''[]'')))) output_file
       = Some (lit ''# Netscape HTTP Cookie File'' @ NL @ NL)"
proof -
  have l: "json_loads (python3 [(lit ''[]'', JList [])]) (lit ''[]'') = Some (JList [])"
    by (simp add: fixture_facts)
  show ?thesis
    using empty_array_is_failure [OF fixture_facts(1) fixture_facts(3) l]
    by (simp add: fixture_facts l)
qed

subsection \<open>A successful run\<close>

text \<open>A decimal numeral without a leading zero is the text \<^verbatim>\<open>str\<close> gives for its
  value, so its value determines it.\<close>

lemma decimal_value_ge: "(a::nat) \<le> foldl (\<lambda>a c. 10 * a + (c - 48)) a s"
proof (induction s arbitrary: a)
  case Nil
  show ?case by simp
next
  case (Cons c s)
  have "a \<le> 10 * a + (c - 48)"
    by simp
  also have "\<dots> \<le> foldl (\<lambda>a c. 10 * a + (c - 48)) (10 * a + (c - 48)) s"
    by (rule Cons.IH)
  finally show ?case
    by simp
qed

lemma decimal_value_pos:
  assumes "list_all is_digit ds" and "ds \<noteq> []" and "hd ds \<noteq> 48"
  shows "0 < decimal_value ds"
proof (cases ds)
  case Nil
  with assms(2) show ?thesis by simp
next
  case (Cons c s)
  with assms have "0 < c - 48"
    by (simp add: is_digit_def)
  also have "c - 48 \<le> foldl (\<lambda>a c. 10 * a + (c - 48)) (c - 48) s"
    by (rule decimal_value_ge)
  finally show ?thesis
    by (simp add: decimal_value_def Cons)
qed

lemma decimal_numeral_unique:
  assumes "list_all is_digit ds" and "ds \<noteq> []" and "hd ds \<noteq> 48"
  shows "ds = py_str (int (decimal_value ds))"
  using assms
proof (induction ds rule: rev_induct)
  case Nil
  then show ?case by simp
next
  case (snoc c ds)
  from snoc.prems(1) have digits: "list_all is_digit ds" and "is_digit c"
    by simp_all
  then have c: "48 \<le> c" "c \<le> 57"
    by (simp_all add: is_digit_def)
  show ?case
  proof (cases "ds = []")
    case True
    with snoc.prems(3) c have "0 < c - 48" "c - 48 < 10"
      by simp_all
    then show ?thesis
      using c by (simp add: True decimal_value_def py_str_def lit_str_nat)
  next
    case False
    with snoc.prems(3) have hd: "hd ds \<noteq> 48"
      by simp
    from snoc.IH [OF digits False hd] have ds: "ds = lit (str_nat (decimal_value ds))"
      by (simp add: py_str_def)
    from decimal_value_pos [OF digits False hd] have pos: "0 < decimal_value ds" .
    let ?n = "10 * decimal_value ds + (c - 48)"
    from c have k: "c - 48 < 10"
      by simp
    have a: "\<not> ?n < 10" and b: "?n div 10 = decimal_value ds" and e: "?n mod 10 = c - 48"
      using pos k by simp_all
    from c have f: "48 + (c - 48) = c"
      by simp
    have "lit (str_nat ?n) = lit (str_nat (decimal_value ds)) @ [c]"
      using lit_str_nat(2) [OF a] unfolding b e f .
    with ds have "lit (str_nat ?n) = ds @ [c]"
      by simp
    then show ?thesis
      by (simp only: decimal_value_append py_str_int)
  qed
qed

text \<open>
  C8. Consider a run on a Python 3 interpreter whose input file loads as a non-empty array
  of \<open>N\<close> records. The run is successful, that is, ends with exit status 0, exactly when
  the output file can be opened, the line of every record can be computed and each of
  its characters is an ASCII character or one the encoding of the output file can
  express. A successful run ends without an exception and prints three lines:
  \<open>Converted\<close>, a decimal numeral without a leading zero whose value is \<open>N\<close>, and
  \<open>cookies from JSON to Netscape format.\<close>; \<open>Saved to ../config/cookies.txt.\<close>; and
  \<open>Conversion complete.\<close>
\<close>

theorem success_reports_record_count:
  assumes "3 \<le> version_major rt" and "open_r w input_file = Inr text"
    and "json_loads rt text = Some (JList cs)" and "cs \<noteq> []"
  shows "(status (main rt w) = 0
            \<longleftrightarrow> writable w output_file
                \<and> (\<forall>c\<in>set cs. \<exists>l. cookie_line rt c = Inr l
                                   \<and> (\<forall>ch\<in>set l. ch < 128 \<or> encodable rt ch)))
       \<and> (status (main rt w) = 0 \<longrightarrow>
            uncaught (main rt w) = None
            \<and> (\<exists>ds. stdout (main rt w) =
                      [lit ''Converted '' @ ds @ lit '' cookies from JSON to Netscape format.'',
                       lit ''Saved to ../config/cookies.txt.'',
                       lit ''Conversion complete.'']
                   \<and> ds \<noteq> [] \<and> list_all is_digit ds \<and> hd ds \<noteq> 48
                   \<and> decimal_value ds = length cs))"
proof (cases "writable w output_file
              \<and> (\<forall>c\<in>set cs. \<exists>l. cookie_line rt c = Inr l \<and> can_encode rt l)")
  case True
  then have w: "writable w output_file"
    and "\<forall>c\<in>set cs. \<exists>l. cookie_line rt c = Inr l \<and> can_encode rt l"
    by simp_all
  from all_lines [OF this(2)] obtain ls where "map (cookie_line rt) cs = map Inr ls"
    "\<forall>l\<in>set ls. can_encode rt l"
    by blast
  note m = main_success [OF assms w this]
  from assms(4) have n: "0 < length cs"
    by simp
  have saved: "lit ''Saved to '' @ output_file @ lit ''.'' = lit ''Saved to ../config/cookies.txt.''"
    by (simp add: output_file_def lit_def)
  have "\<exists>ds. stdout (main rt w) =
                [lit ''Converted '' @ ds @ lit '' cookies from JSON to Netscape format.'',
                 lit ''Saved to ../config/cookies.txt.'',
                 lit ''Conversion complete.'']
             \<and> ds \<noteq> [] \<and> list_all is_digit ds \<and> hd ds \<noteq> 48
             \<and> decimal_value ds = length cs"
    by (rule exI [of _ "py_str (int (length cs))"])
      (simp add: m summary_def saved py_str_count assms(4))
  with True show ?thesis
    by (simp add: m can_encode_iff)
next
  case False
  have "status (main rt w) = 1"
  proof (cases "writable w output_file")
    case w: False
    from main_unwritable [OF assms(1-3) w] show ?thesis
      by (simp add: crash_def)
  next
    case w: True
    with False have "\<exists>c\<in>set cs. \<forall>l. cookie_line rt c = Inr l \<longrightarrow> \<not> can_encode rt l"
      by blast
    from write_loop_raises [OF this, of header]
    obtain buf e where "with_body rt (JList cs) = (buf, Some e)"
      by (auto simp: with_body_iter)
    from main_loaded [OF assms(1-3) w this] show ?thesis
      by (simp add: crash_def)
  qed
  with False show ?thesis
    by (simp add: can_encode_iff)
qed

lemma default_line:
  "cookie_line rt (JDict []) =
     Inr (TAB @ lit ''FALSE'' @ TAB @ lit ''/'' @ TAB @ lit ''FALSE'' @ TAB @ lit ''2147483647''
          @ TAB @ TAB @ NL)"
  by (simp add: cookie_line_def default_items bind_exn_def lit_Nil)

lemma ascii_lines:
  "\<forall>ch\<in>set (lit ''.example.com'' @ TAB @ lit ''TRUE'' @ TAB @ lit ''/'' @ TAB @ lit ''TRUE'' @ TAB
          @ lit ''2147483647'' @ TAB @ lit ''sid'' @ TAB @ lit ''abc123'' @ NL). ch < 128"
  "\<forall>ch\<in>set (lit ''example.org'' @ TAB @ lit ''FALSE'' @ TAB @ lit ''/a'' @ TAB @ lit ''FALSE'' @ TAB
          @ lit ''1700000000'' @ TAB @ lit ''k'' @ TAB @ lit ''v'' @ NL). ch < 128"
  "\<forall>ch\<in>set (TAB @ lit ''FALSE'' @ TAB @ lit ''/'' @ TAB @ lit ''FALSE'' @ TAB @ lit ''2147483647''
          @ TAB @ TAB @ NL). ch < 128"
  by (simp_all add: lit_def TAB_def NL_def)

theorem success_reports_record_count_witness:
  "3 \<le> version_major (python3 [(three_doc, JList [example_cookie, full_cookie, JDict []])])
   \<and> open_r (disk three_doc) input_file = Inr three_doc
   \<and> json_loads (python3 [(three_doc, JList [example_cookie, full_cookie, JDict []])]) three_doc
       = Some (JList [example_cookie, full_cookie, JDict []])
   \<and> writable (disk three_doc) output_file
   \<and> length [example_cookie, full_cookie, JDict []] = 3
   \<and> status (main (python3 [(three_doc, JList [example_cookie, full_cookie, JDict []])])
               (disk three_doc)) = 0
   \<and> uncaught (main (python3 [(three_doc, JList [example_cookie, full_cookie, JDict []])])
                 (disk three_doc)) = None
   \<and> stdout (main (python3 [(three_doc, JList [example_cookie, full_cookie, JDict []])])
               (disk three_doc))
       = [lit ''Converted 3 cookies from JSON to Netscape format.'',
          lit ''Saved to ../config/cookies.txt.'',
          lit ''Conversion complete.'']"
proof -
  let ?rt = "python3 [(three_doc, JList [example_cookie, full_cookie, JDict []])]"
  have l: "json_loads ?rt three_doc = Some (JList [example_cookie, full_cookie, JDict []])"
    by (simp add: fixture_facts)
  have n: "[example_cookie, full_cookie, JDict []] \<noteq> []"
    by simp
  have c: "\<forall>c\<in>set [example_cookie, full_cookie, JDict []].
             \<exists>l. cookie_line ?rt c = Inr l \<and> (\<forall>ch\<in>set l. ch < 128 \<or> encodable ?rt ch)"
    using ascii_lines by (simp add: example_cookie_line full_cookie_line default_line)
  note count = success_reports_record_count [OF fixture_facts(1) fixture_facts(3) l n]
  from count c have s: "status (main ?rt (disk three_doc)) = 0"
    by (simp add: fixture_facts)
  with count have u: "uncaught (main ?rt (disk three_doc)) = None"
    by simp
  from count s obtain ds where
    out: "stdout (main ?rt (disk three_doc)) =
           [lit ''Converted '' @ ds @ lit '' cookies from JSON to Netscape format.'',
            lit ''Saved to ../config/cookies.txt.'',
            lit ''Conversion complete.'']"
    and ds: "ds \<noteq> []" "list_all is_digit ds" "hd ds \<noteq> 48"
      "decimal_value ds = length [example_cookie, full_cookie, JDict []]"
    by blast
  from decimal_numeral_unique [OF ds(2,1,3)] ds(4) have "ds = lit ''3''"
    by (simp add: py_str_def str_nat.simps)
  with out have "stdout (main ?rt (disk three_doc)) =
       [lit ''Converted 3 cookies from JSON to Netscape format.'',
        lit ''Saved to ../config/cookies.txt.'',
        lit ''Conversion complete.'']"
    by (simp add: lit_def)
  with s u show ?thesis
    by (simp add: fixture_facts l)
qed

subsection \<open>The output file\<close>

lemma is_str_iff: "is_str x \<longleftrightarrow> (\<exists>s. x = JStr s)"
  by (cases x) simp_all

lemma py_int_number: "is_number x \<Longrightarrow> finite_number x \<Longrightarrow> \<exists>e. py_int rt x = Inr e"
proof (cases x)
  case (JFloat f)
  assume "finite_number x"
  then show ?thesis
    unfolding JFloat by (cases f) simp_all
qed simp_all

text \<open>The line of a record of the intended shape with a finite expiration date is
  computed, and it can be written when the string fields of the record can.\<close>

lemma record_line:
  assumes "cookie_record c" and "finite_expiry c"
  shows "\<exists>l. cookie_line rt c = Inr l"
proof (cases c)
  case (JDict kvs)
  from assms(1) obtain d p n v where
    "dict_get kvs (lit ''domain'') (JStr (lit '''')) = JStr d"
    "dict_get kvs (lit ''path'') (JStr (lit ''/'')) = JStr p"
    "dict_get kvs (lit ''name'') (JStr (lit '''')) = JStr n"
    "dict_get kvs (lit ''value'') (JStr (lit '''')) = JStr v"
    unfolding JDict by (auto simp: is_str_iff)
  moreover from assms obtain e where
    "py_int rt (dict_get kvs (lit ''expirationDate'') (JInt 2147483647)) = Inr e"
    unfolding JDict using py_int_number by auto
  ultimately show ?thesis
    unfolding cookie_line_Inr JDict by blast
qed (use assms in simp_all)

lemma can_encode_flag [simp]: "can_encode rt (lit (if b then ''TRUE'' else ''FALSE''))"
  by simp

lemma record_line_encodable:
  assumes "cookie_line rt c = Inr l" and "encodable_record rt c"
  shows "can_encode rt l"
proof -
  from assms(1) obtain kvs d p e n v where c: "c = JDict kvs"
    and f: "dict_get kvs (lit ''domain'') (JStr (lit '''')) = JStr d"
      "dict_get kvs (lit ''path'') (JStr (lit ''/'')) = JStr p"
      "dict_get kvs (lit ''name'') (JStr (lit '''')) = JStr n"
      "dict_get kvs (lit ''value'') (JStr (lit '''')) = JStr v"
    and l: "l = d @ TAB @ lit (if take 1 d = lit ''.'' then ''TRUE'' else ''FALSE'') @ TAB @ p @ TAB
              @ lit (if truthy (dict_get kvs (lit ''secure'') (JBool False))
                     then ''TRUE'' else ''FALSE'') @ TAB
              @ py_str e @ TAB @ n @ TAB @ v @ NL"
    unfolding cookie_line_Inr by blast
  from assms(2) have "can_encode rt d" "can_encode rt p" "can_encode rt n" "can_encode rt v"
    unfolding c by (simp_all add: f can_encode_iff)
  then show ?thesis
    unfolding l by (simp del: lit_inject)
qed

text \<open>Counting line feeds.\<close>

lemma num_lines_append [simp]: "num_lines (a @ b) = num_lines a + num_lines b"
  by (simp add: num_lines_def)

lemma num_lines_Cons:
  "num_lines (c # s) = (if c = 10 then 1 else 0) + num_lines s"
  by (simp add: num_lines_def)

lemma num_lines_none: "10 \<notin> set s \<Longrightarrow> num_lines s = 0"
  by (induction s) (auto simp: num_lines_def)

lemma num_lines_consts [simp]:
  "num_lines NL = 1" "num_lines TAB = 0" "num_lines (lit ''TRUE'') = 0"
  "num_lines (lit ''FALSE'') = 0" "num_lines header = 2"
  "num_lines (lit (if b then ''TRUE'' else ''FALSE'')) = 0"
  by (simp_all add: num_lines_def NL_def TAB_def header_def lit_def)

lemma num_lines_py_str [simp]: "num_lines (py_str i) = 0"
proof -
  have "num_lines (lit (str_nat k)) = 0" for k
    using str_nat_digits [of k] by (intro num_lines_none) (auto simp: list_all_iff is_digit_def)
  then show ?thesis
    by (simp add: py_str_def lit_Cons num_lines_Cons)
qed

lemma line_has_one_feed:
  assumes "cookie_line rt c = Inr l" and "no_line_feed c"
  shows "num_lines l = 1"
proof -
  from assms(1) obtain kvs d p e n v where c: "c = JDict kvs"
    and f: "dict_get kvs (lit ''domain'') (JStr (lit '''')) = JStr d"
      "dict_get kvs (lit ''path'') (JStr (lit ''/'')) = JStr p"
      "dict_get kvs (lit ''name'') (JStr (lit '''')) = JStr n"
      "dict_get kvs (lit ''value'') (JStr (lit '''')) = JStr v"
    and l: "l = d @ TAB @ lit (if take 1 d = lit ''.'' then ''TRUE'' else ''FALSE'') @ TAB @ p @ TAB
              @ lit (if truthy (dict_get kvs (lit ''secure'') (JBool False))
                     then ''TRUE'' else ''FALSE'') @ TAB
              @ py_str e @ TAB @ n @ TAB @ v @ NL"
    unfolding cookie_line_Inr by blast
  from assms(2) have "num_lines d = 0" "num_lines p = 0" "num_lines n = 0" "num_lines v = 0"
    unfolding c by (simp_all add: f num_lines_none)
  then show ?thesis
    by (simp add: l del: lit_inject)
qed

lemma line_is_joined:
  assumes "cookie_line rt c = Inr l"
  shows "\<exists>d f p s e n v. l = d @ TAB @ f @ TAB @ p @ TAB @ s @ TAB @ e @ TAB @ n @ TAB @ v @ NL"
proof -
  from assms obtain d f p s e n v
    where "l = d @ TAB @ lit f @ TAB @ p @ TAB @ lit s @ TAB @ py_str e @ TAB @ n @ TAB @ v @ NL"
    unfolding cookie_line_Inr by blast
  then show ?thesis
    by blast
qed

lemma lines_of_records:
  assumes "map (cookie_line rt) cs = map Inr ls"
  shows "\<forall>l\<in>set ls. \<exists>d f p s e n v.
           l = d @ TAB @ f @ TAB @ p @ TAB @ s @ TAB @ e @ TAB @ n @ TAB @ v @ NL"
    and "(\<forall>c\<in>set cs. no_line_feed c) \<Longrightarrow> num_lines (concat ls) = length cs"
  using assms
proof (induction cs arbitrary: ls)
  case Nil
  {
    case 1
    then show ?case by simp
  next
    case 2
    then show ?case by (simp add: num_lines_def)
  }
next
  case (Cons c cs)
  {
    case 1
    then obtain l ls' where ls: "ls = l # ls'" and l: "cookie_line rt c = Inr l"
      and rest: "map (cookie_line rt) cs = map Inr ls'"
      by (cases ls) auto
    show ?case
      using Cons.IH(1) [OF rest] line_is_joined [OF l] by (simp add: ls)
  next
    case 2
    then obtain l ls' where ls: "ls = l # ls'" and l: "cookie_line rt c = Inr l"
      and rest: "map (cookie_line rt) cs = map Inr ls'"
      by (cases ls) auto
    from 2 have "no_line_feed c" "\<forall>c\<in>set cs. no_line_feed c"
      by simp_all
    then show ?case
      using Cons.IH(2) [OF _ rest] line_has_one_feed [OF l] by (simp add: ls)
  }
qed

text \<open>
  C2, as amended. On a Python 3 interpreter, when the input file loads as a non-empty
  array of cookie records whose expiration dates are finite and whose string fields hold
  only characters that the encoding of the output file can express, and the output file
  can be opened, the run ends with exit status 0 and the output file holds, whatever it
  held before, the two-line header followed by the lines of the records in input order,
  each of them seven fields joined by tabs and ended by a line feed. When no string
  field of a record holds a line feed, the file has \<open>len(input) + 2\<close> lines.
\<close>

theorem header_then_one_line_per_record:
  assumes "3 \<le> version_major rt" and "open_r w input_file = Inr text"
    and "json_loads rt text = Some (JList cs)" and "cs \<noteq> []"
    and "writable w output_file"
    and "\<forall>c\<in>set cs. cookie_record c \<and> finite_expiry c \<and> encodable_record rt c"
  shows "\<exists>ls. map (cookie_line rt) cs = map Inr ls
           \<and> status (main rt w) = 0
           \<and> files (final (main rt w)) output_file
               = Some (lit ''# Netscape HTTP Cookie File'' @ NL @ NL @ concat ls)
           \<and> (\<forall>l\<in>set ls. \<exists>d f p s e n v.
                 l = d @ TAB @ f @ TAB @ p @ TAB @ s @ TAB @ e @ TAB @ n @ TAB @ v @ NL)
           \<and> ((\<forall>c\<in>set cs. no_line_feed c) \<longrightarrow>
                num_lines (lit ''# Netscape HTTP Cookie File'' @ NL @ NL @ concat ls)
                  = length cs + 2)"
proof -
  have "\<forall>c\<in>set cs. \<exists>l. cookie_line rt c = Inr l \<and> can_encode rt l"
  proof
    fix c
    assume "c \<in> set cs"
    with assms(6) have c: "cookie_record c" "finite_expiry c" "encodable_record rt c"
      by simp_all
    from record_line [OF c(1,2)] obtain l where l: "cookie_line rt c = Inr l" ..
    from record_line_encodable [OF l c(3)] l
    show "\<exists>l. cookie_line rt c = Inr l \<and> can_encode rt l"
      by blast
  qed
  from all_lines [OF this] obtain ls where ls: "map (cookie_line rt) cs = map Inr ls"
    and enc: "\<forall>l\<in>set ls. can_encode rt l"
    by blast
  have h: "lit ''# Netscape HTTP Cookie File'' @ NL @ NL @ concat ls = header @ concat ls"
    by (simp add: header_def)
  note m = main_success [OF assms(1-5) ls enc]
  show ?thesis
  proof (intro exI conjI impI)
    show "map (cookie_line rt) cs = map Inr ls"
      by (rule ls)
    show "status (main rt w) = 0"
      by (simp add: m)
    show "files (final (main rt w)) output_file
            = Some (lit ''# Netscape HTTP Cookie File'' @ NL @ NL @ concat ls)"
      unfolding h by (simp add: m)
    show "\<forall>l\<in>set ls. \<exists>d f p s e n v.
            l = d @ TAB @ f @ TAB @ p @ TAB @ s @ TAB @ e @ TAB @ n @ TAB @ v @ NL"
      by (rule lines_of_records(1) [OF ls])
    assume "\<forall>c\<in>set cs. no_line_feed c"
    from lines_of_records(2) [OF ls this]
    show "num_lines (lit ''# Netscape HTTP Cookie File'' @ NL @ NL @ concat ls) = length cs + 2"
      unfolding h by simp
  qed
qed

lemma fixture_records:
  "cookie_record example_cookie" "finite_expiry example_cookie"
  "encodable_record rt example_cookie" "no_line_feed example_cookie"
  "cookie_record full_cookie" "finite_expiry full_cookie"
  "encodable_record rt full_cookie" "no_line_feed full_cookie"
  by (simp_all add: example_cookie_def full_cookie_def dict_get_def, simp_all add: lit_def)

theorem header_then_one_line_per_record_witness:
  "3 \<le> version_major (python3 [(two_doc, JList [example_cookie, full_cookie])])
   \<and> open_r \<lparr>files = [input_file \<mapsto> two_doc, output_file \<mapsto> lit ''old''],
              readable = (\<lambda>p. True), writable = (\<lambda>p. True)\<rparr> input_file = Inr two_doc
   \<and> json_loads (python3 [(two_doc, JList [example_cookie, full_cookie])]) two_doc
       = Some (JList [example_cookie, full_cookie])
   \<and> cookie_record example_cookie \<and> finite_expiry example_cookie
   \<and> encodable_record (python3 [(two_doc, JList [example_cookie, full_cookie])]) example_cookie
   \<and> no_line_feed example_cookie
   \<and> cookie_record full_cookie \<and> finite_expiry full_cookie
   \<and> encodable_record (python3 [(two_doc, JList [example_cookie, full_cookie])]) full_cookie
   \<and> no_line_feed full_cookie
   \<and> status (main (python3 [(two_doc, JList [example_cookie, full_cookie])])
               \<lparr>files = [input_file \<mapsto> two_doc, output_file \<mapsto> lit ''old''],
                readable = (\<lambda>p. True), writable = (\<lambda>p. True)\<rparr>) = 0
   \<and> files (final (main (python3 [(two_doc, JList [example_cookie, full_cookie])])
                      \<lparr>files = [input_file \<mapsto> two_doc, output_file \<mapsto> lit ''old''],
                       readable = (\<lambda>p. True), writable = (\<lambda>p. True)\<rparr>)) output_file
       = Some (lit ''# Netscape HTTP Cookie File'' @ NL @ NL
               @ lit ''.example.com'' @ TAB @ lit ''TRUE'' @ TAB @ lit ''/'' @ TAB @ lit ''TRUE''
               @ TAB @ lit ''2147483647'' @ TAB @ lit ''sid'' @ TAB @ lit ''abc123'' @ NL
               @ lit ''example.org'' @ TAB @ lit ''FALSE'' @ TAB @ lit ''/a'' @ TAB @ lit ''FALSE''
               @ TAB @ lit ''1700000000'' @ TAB @ lit ''k'' @ TAB @ lit ''v'' @ NL)
   \<and> num_lines (lit ''# Netscape HTTP Cookie File'' @ NL @ NL
               @ lit ''.example.com'' @ TAB @ lit ''TRUE'' @ TAB @ lit ''/'' @ TAB @ lit ''TRUE''
               @ TAB @ lit ''2147483647'' @ TAB @ lit ''sid'' @ TAB @ lit ''abc123'' @ NL
               @ lit ''example.org'' @ TAB @ lit ''FALSE'' @ TAB @ lit ''/a'' @ TAB @ lit ''FALSE''
               @ TAB @ lit ''1700000000'' @ TAB @ lit ''k'' @ TAB @ lit ''v'' @ NL)
       = length [example_cookie, full_cookie] + 2"
proof -
  let ?rt = "python3 [(two_doc, JList [example_cookie, full_cookie])]"
  let ?w = "\<lparr>files = [input_file \<mapsto> two_doc, output_file \<mapsto> lit ''old''],
             readable = (\<lambda>p. True), writable = (\<lambda>p. True)\<rparr>"
  have v: "3 \<le> version_major ?rt"
    by (rule fixture_facts)
  have r: "open_r ?w input_file = Inr two_doc"
    by (simp add: open_r_def input_file_def output_file_def)
  have l: "json_loads ?rt two_doc = Some (JList [example_cookie, full_cookie])"
    by (simp add: fixture_facts)
  have n: "[example_cookie, full_cookie] \<noteq> []"
    by simp
  have o: "writable ?w output_file"
    by simp
  have c: "\<forall>c\<in>set [example_cookie, full_cookie].
             cookie_record c \<and> finite_expiry c \<and> encodable_record ?rt c"
    by (simp add: fixture_records)
  have f: "\<forall>c\<in>set [example_cookie, full_cookie]. no_line_feed c"
    by (simp add: fixture_records)
  from header_then_one_line_per_record [OF v r l n o c]
  obtain ls where ls: "map (cookie_line ?rt) [example_cookie, full_cookie] = map Inr ls"
    and status: "status (main ?rt ?w) = 0"
    and content: "files (final (main ?rt ?w)) output_file
                    = Some (lit ''# Netscape HTTP Cookie File'' @ NL @ NL @ concat ls)"
    and count: "(\<forall>c\<in>set [example_cookie, full_cookie]. no_line_feed c) \<longrightarrow>
                  num_lines (lit ''# Netscape HTTP Cookie File'' @ NL @ NL @ concat ls)
                    = length [example_cookie, full_cookie] + 2"
    by blast
  from ls have "ls = [lit ''.example.com'' @ TAB @ lit ''TRUE'' @ TAB @ lit ''/'' @ TAB @ lit ''TRUE''
               @ TAB @ lit ''2147483647'' @ TAB @ lit ''sid'' @ TAB @ lit ''abc123'' @ NL,
               lit ''example.org'' @ TAB @ lit ''FALSE'' @ TAB @ lit ''/a'' @ TAB @ lit ''FALSE''
               @ TAB @ lit ''1700000000'' @ TAB @ lit ''k'' @ TAB @ lit ''v'' @ NL]"
    by (simp add: example_cookie_line full_cookie_line map_eq_Cons_conv) auto
  with status content count f show ?thesis
    by (simp add: v r l fixture_records)
qed

lemma linefeed_cookie_line:
  "cookie_line rt linefeed_cookie =
     Inr (TAB @ lit ''FALSE'' @ TAB @ lit ''/'' @ TAB @ lit ''FALSE'' @ TAB @ lit ''2147483647''
          @ TAB @ TAB @ lit ''a'' @ NL @ lit ''b'' @ NL)"
  by (simp add: cookie_line_def cookie_items_dict linefeed_cookie_def dict_get_def
      py_str_default bind_exn_def NL_def lit_def)

text \<open>
  C2 as stated fails: the one record of \<^verbatim>\<open>[{"value": "a\nb"}]\<close> is a cookie record,
  the run succeeds, and the output file has four lines, not three, because the line feed
  of the value is written as it is.
\<close>

theorem line_count_counterexample:
  "3 \<le> version_major (python3 [(linefeed_doc, JList [linefeed_cookie])])
   \<and> open_r (disk linefeed_doc) input_file = Inr linefeed_doc
   \<and> json_loads (python3 [(linefeed_doc, JList [linefeed_cookie])]) linefeed_doc
       = Some (JList [linefeed_cookie])
   \<and> cookie_record linefeed_cookie
   \<and> writable (disk linefeed_doc) output_file
   \<and> status (main (python3 [(linefeed_doc, JList [linefeed_cookie])]) (disk linefeed_doc)) = 0
   \<and> files (final (main (python3 [(linefeed_doc, JList [linefeed_cookie])]) (disk linefeed_doc)))
         output_file
       = Some (lit ''# Netscape HTTP Cookie File'' @ NL @ NL
               @ TAB @ lit ''FALSE'' @ TAB @ lit ''/'' @ TAB @ lit ''FALSE'' @ TAB
               @ lit ''2147483647'' @ TAB @ TAB @ lit ''a'' @ NL @ lit ''b'' @ NL)
   \<and> num_lines (lit ''# Netscape HTTP Cookie File'' @ NL @ NL
               @ TAB @ lit ''FALSE'' @ TAB @ lit ''/'' @ TAB @ lit ''FALSE'' @ TAB
               @ lit ''2147483647'' @ TAB @ TAB @ lit ''a'' @ NL @ lit ''b'' @ NL) = 4
   \<and> length [linefeed_cookie] + 2 = 3"
proof -
  let ?rt = "python3 [(linefeed_doc, JList [linefeed_cookie])]"
  let ?line = "TAB @ lit ''FALSE'' @ TAB @ lit ''/'' @ TAB @ lit ''FALSE'' @ TAB
               @ lit ''2147483647'' @ TAB @ TAB @ lit ''a'' @ NL @ lit ''b'' @ NL"
  have l: "json_loads ?rt linefeed_doc = Some (JList [linefeed_cookie])"
    by (simp add: fixture_facts)
  have ls: "map (cookie_line ?rt) [linefeed_cookie] = map Inr [?line]"
    by (simp add: linefeed_cookie_line)
  have enc: "\<forall>l\<in>set [?line]. can_encode ?rt l"
    by (simp add: can_encode_def lit_def TAB_def NL_def)
  have r: "cookie_record linefeed_cookie"
    by (simp add: linefeed_cookie_def dict_get_def)
  have n: "num_lines (lit ''# Netscape HTTP Cookie File'' @ NL @ NL @ ?line) = 4"
    by (simp add: num_lines_def NL_def TAB_def lit_def)
  have m: "main ?rt (disk linefeed_doc) =
     \<lparr>final = (disk linefeed_doc)\<lparr>files := (files (disk linefeed_doc))(output_file \<mapsto>
                 header @ concat [?line])\<rparr>,
      stdout = summary (length [linefeed_cookie]), status = 0, uncaught = None\<rparr>"
    by (rule main_success [OF fixture_facts(1) fixture_facts(3) l _ fixture_facts(4) ls enc]) simp
  show ?thesis
    unfolding m n by (simp add: fixture_facts l r header_def)
qed

text \<open>A record whose expiration date is an infinity or NaN (\<^verbatim>\<open>1e999\<close> loads as one) is
  a cookie record as well, and its line is not computed: \<^verbatim>\<open>int\<close> raises.\<close>

lemma infinite_expiry_raises:
  "cookie_line rt (JDict [(lit ''expirationDate'', JFloat PosInf)]) = Inl OverflowError"
  "cookie_line rt (JDict [(lit ''expirationDate'', JFloat NaN)]) = Inl ValueError"
  "cookie_record (JDict [(lit ''expirationDate'', JFloat PosInf)])"
  by (simp_all add: cookie_line_def cookie_items_dict dict_get_def bind_exn_def)

text \<open>A record whose value is a lone surrogate is a cookie record too; under UTF-8 its
  line cannot be written, and the run ends in \<open>UnicodeEncodeError\<close> with the header alone
  in the output file.\<close>

lemma surrogate_cookie_line:
  "cookie_line rt surrogate_cookie =
     Inr (TAB @ lit ''FALSE'' @ TAB @ lit ''/'' @ TAB @ lit ''FALSE'' @ TAB @ lit ''2147483647''
          @ TAB @ TAB @ [0xD800] @ NL)"
  by (simp add: cookie_line_def cookie_items_dict surrogate_cookie_def dict_get_def
      py_str_default bind_exn_def lit_Nil)

lemma surrogate_write_fails:
  "cookie_record surrogate_cookie"
  "main (python3 [(surrogate_doc, JList [surrogate_cookie])]) (disk surrogate_doc) =
     \<lparr>final = (disk surrogate_doc)\<lparr>files := (files (disk surrogate_doc))(output_file \<mapsto>
                 lit ''# Netscape HTTP Cookie File'' @ NL @ NL)\<rparr>,
      stdout = [], status = 1, uncaught = Some UnicodeEncodeError\<rparr>"
proof -
  let ?rt = "python3 [(surrogate_doc, JList [surrogate_cookie])]"
  show "cookie_record surrogate_cookie"
    by (simp add: surrogate_cookie_def dict_get_def)
  have l: "json_loads ?rt surrogate_doc = Some (JList [surrogate_cookie])"
    by (simp add: fixture_facts)
  have "\<not> can_encode ?rt (TAB @ lit ''FALSE'' @ TAB @ lit ''/'' @ TAB @ lit ''FALSE'' @ TAB
          @ lit ''2147483647'' @ TAB @ TAB @ [0xD800] @ NL)"
    by (simp add: can_encode_def fixture_facts utf8_def)
  then have "with_body ?rt (JList [surrogate_cookie]) = (header, Some UnicodeEncodeError)"
    by (simp add: with_body_iter write_loop_step(2) [OF surrogate_cookie_line]
        del: write_loop.simps)
  from main_loaded [OF fixture_facts(1) fixture_facts(3) l fixture_facts(4) this]
  show "main ?rt (disk surrogate_doc) =
     \<lparr>final = (disk surrogate_doc)\<lparr>files := (files (disk surrogate_doc))(output_file \<mapsto>
                 lit ''# Netscape HTTP Cookie File'' @ NL @ NL)\<rparr>,
      stdout = [], status = 1, uncaught = Some UnicodeEncodeError\<rparr>"
    by (simp add: crash_def header_def)
qed

subsection \<open>Input that is not an array of mappings\<close>

lemma list_all_is_dict:
  "\<not> list_all is_dict cs
     \<Longrightarrow> \<exists>c\<in>set cs. \<forall>l. cookie_line rt c = Inr l \<longrightarrow> \<not> can_encode rt l"
proof -
  assume "\<not> list_all is_dict cs"
  then obtain c where c: "c \<in> set cs" "\<not> is_dict c"
    by (auto simp: list_all_iff)
  then have "\<forall>l. cookie_line rt c = Inr l \<longrightarrow> \<not> can_encode rt l"
    by (simp add: cookie_line_not_dict)
  with c(1) show ?thesis
    by blast
qed

text \<open>The block ends in an exception on every value that is not an array of mappings,
  except the empty object and the empty string, on which the loop does nothing. A value
  that cannot be iterated raises \<open>TypeError\<close>, the first key of an object and the first
  character of a string raise \<open>AttributeError\<close>, and so does an element of an array that
  is not a mapping, unless an earlier element has raised.\<close>

lemma with_body_not_iterable:
  "with_body rt JNull = (header, Some TypeError)"
  "with_body rt (JBool b) = (header, Some TypeError)"
  "with_body rt (JInt i) = (header, Some TypeError)"
  "with_body rt (JFloat x) = (header, Some TypeError)"
  "with_body rt (JStr (c # s)) = (header, Some AttributeError)"
  "with_body rt (JDict (kv # kvs)) = (header, Some AttributeError)"
  "\<not> is_dict e \<Longrightarrow> with_body rt (JList (e # es)) = (header, Some AttributeError)"
  by (simp_all add: with_body_iter write_loop_step(3) cookie_line_not_dict del: write_loop.simps)

lemma with_body_not_array:
  assumes "\<not> array_of_mappings j"
  shows "(\<exists>buf e. with_body rt j = (buf, Some e))
       \<or> (with_body rt j = (header, None) \<and> \<not> truthy j \<and> (j = JDict [] \<or> j = JStr []))"
proof (cases j)
  case (JStr s)
  then show ?thesis
    by (cases s) (simp_all add: with_body_not_iterable, simp add: with_body_iter)
next
  case (JList cs)
  with assms have "\<not> list_all is_dict cs"
    by simp
  from write_loop_raises [OF list_all_is_dict [OF this]] show ?thesis
    by (simp add: JList with_body_iter)
next
  case (JDict kvs)
  then show ?thesis
    by (cases kvs) (simp_all add: with_body_not_iterable, simp add: with_body_iter)
qed (simp_all add: with_body_not_iterable)

text \<open>
  C6, as amended. On a Python 3 interpreter with a readable input file, when
  \<^verbatim>\<open>json.load\<close> raises (the content is not valid JSON, cannot be decoded, or is beyond a
  limit of the interpreter) the run ends in that exception before anything is written
  or printed; when the content loads as a value that is not an array of mappings the
  run ends in an uncaught exception with nothing printed, except for the empty object
  and the empty string, for which it ends in the empty-input abort
  \<open>No cookies found in JSON. Aborting.\<close> In every case the exit status is 1 and no
  converted count is printed.
\<close>

theorem malformed_or_non_array_input_fails:
  assumes "3 \<le> version_major rt" and "open_r w input_file = Inr text"
    and "json_loads rt text = None
         \<or> (\<exists>j. json_loads rt text = Some j \<and> \<not> array_of_mappings j)"
  shows "status (main rt w) = 1
       \<and> (\<forall>n. stdout (main rt w) \<noteq> summary n)
       \<and> (json_loads rt text = None \<longrightarrow>
            main rt w = \<lparr>final = w, stdout = [], status = 1,
                         uncaught = Some (load_error rt text)\<rparr>)
       \<and> (stdout (main rt w) = [] \<and> uncaught (main rt w) \<noteq> None
          \<or> stdout (main rt w) = [lit ''No cookies found in JSON. Aborting.'']
            \<and> uncaught (main rt w) = None
            \<and> (json_loads rt text = Some (JDict []) \<or> json_loads rt text = Some (JStr [])))"
proof (cases "json_loads rt text")
  case None
  with assms(1,2) have "main rt w = crash w (load_error rt text)"
    by (simp add: main_def)
  then show ?thesis
    using None by (simp add: crash_def)
next
  case (Some j)
  with assms(3) have j: "\<not> array_of_mappings j"
    by simp
  show ?thesis
  proof (cases "writable w output_file")
    case False
    from main_unwritable [OF assms(1,2) Some False] show ?thesis
      by (simp add: crash_def Some)
  next
    case True
    from with_body_not_array [OF j, of rt] show ?thesis
    proof
      assume "\<exists>buf e. with_body rt j = (buf, Some e)"
      then obtain buf e where "with_body rt j = (buf, Some e)"
        by blast
      from main_loaded [OF assms(1,2) Some True this] show ?thesis
        by (simp add: crash_def Some)
    next
      assume a: "with_body rt j = (header, None) \<and> \<not> truthy j \<and> (j = JDict [] \<or> j = JStr [])"
      then have "with_body rt j = (header, None)"
        by simp
      from main_loaded [OF assms(1,2) Some True this] show ?thesis
        using a by (auto simp: Some)
    qed
  qed
qed

theorem malformed_or_non_array_input_fails_witness:
  "3 \<le> version_major (python3 [(lit ''7'', JInt 7), (lit ''[1]'', JList [JInt 1])])
   \<and> open_r (disk (lit ''[{'')) input_file = Inr (lit ''[{'')
   \<and> json_loads (python3 [(lit ''7'', JInt 7), (lit ''[1]'', JList [JInt 1])]) (lit ''[{'') = None
   \<and> main (python3 [(lit ''7'', JInt 7), (lit ''[1]'', JList [JInt 1])]) (disk (lit ''[{''))
       = \<lparr>final = disk (lit ''[{''), stdout = [], status = 1, uncaught = Some JSONDecodeError\<rparr>
   \<and> open_r (disk (lit ''7'')) input_file = Inr (lit ''7'')
   \<and> json_loads (python3 [(lit ''7'', JInt 7), (lit ''[1]'', JList [JInt 1])]) (lit ''7'')
       = Some (JInt 7)
   \<and> \<not> array_of_mappings (JInt 7)
   \<and> status (main (python3 [(lit ''7'', JInt 7), (lit ''[1]'', JList [JInt 1])])
               (disk (lit ''7''))) = 1
   \<and> stdout (main (python3 [(lit ''7'', JInt 7), (lit ''[1]'', JList [JInt 1])])
               (disk (lit ''7''))) = []
   \<and> uncaught (main (python3 [(lit ''7'', JInt 7), (lit ''[1]'', JList [JInt 1])])
                 (disk (lit ''7''))) = Some TypeError
   \<and> open_r (disk (lit ''[1]'')) input_file = Inr (lit ''[1]'')
   \<and> json_loads (python3 [(lit ''7'', JInt 7), (lit ''[1]'', JList [JInt 1])]) (lit ''[1]'')
       = Some (JList [JInt 1])
   \<and> \<not> array_of_mappings (JList [JInt 1])
   \<and> status (main (python3 [(lit ''7'', JInt 7), (lit ''[1]'', JList [JInt 1])])
               (disk (lit ''[1]''))) = 1
   \<and> stdout (main (python3 [(lit ''7'', JInt 7), (lit ''[1]'', JList [JInt 1])])
               (disk (lit ''[1]''))) = []
   \<and> uncaught (main (python3 [(lit ''7'', JInt 7), (lit ''[1]'', JList [JInt 1])])
                 (disk (lit ''[1]''))) = Some AttributeError"
proof -
  let ?rt = "python3 [(lit ''7'', JInt 7), (lit ''[1]'', JList [JInt 1])]"
  have l: "json_loads ?rt (lit ''[{'') = None" "json_loads ?rt (lit ''7'') = Some (JInt 7)"
    "json_loads ?rt (lit ''[1]'') = Some (JList [JInt 1])"
    by (simp_all add: fixture_facts)
  have a: "json_loads ?rt (lit ''[{'') = None
           \<or> (\<exists>j. json_loads ?rt (lit ''[{'') = Some j \<and> \<not> array_of_mappings j)"
    and b: "json_loads ?rt (lit ''7'') = None
           \<or> (\<exists>j. json_loads ?rt (lit ''7'') = Some j \<and> \<not> array_of_mappings j)"
    and c: "json_loads ?rt (lit ''[1]'') = None
           \<or> (\<exists>j. json_loads ?rt (lit ''[1]'') = Some j \<and> \<not> array_of_mappings j)"
    by (simp_all add: l)
  have 7: "uncaught (main ?rt (disk (lit ''7''))) = Some TypeError"
    using main_loaded [OF fixture_facts(1) fixture_facts(3) l(2) fixture_facts(4)
        with_body_not_iterable(3)]
    by (simp add: crash_def)
  have 1: "uncaught (main ?rt (disk (lit ''[1]''))) = Some AttributeError"
    using main_loaded [OF fixture_facts(1) fixture_facts(3) l(3) fixture_facts(4)
        with_body_not_iterable(7)]
    by (simp add: crash_def)
  show ?thesis
    using malformed_or_non_array_input_fails [OF fixture_facts(1) fixture_facts(3) a]
      malformed_or_non_array_input_fails [OF fixture_facts(1) fixture_facts(3) b]
      malformed_or_non_array_input_fails [OF fixture_facts(1) fixture_facts(3) c]
    by (simp add: fixture_facts l 7 1)
qed

text \<open>
  C6 as stated fails: the empty object \<^verbatim>\<open>{}\<close> is valid JSON and not an array of
  mappings, and the run does not end in a parse error, nor in any exception: the header
  is written and the run ends in the empty-input abort.
\<close>

theorem empty_object_counterexample:
  "open_r (disk (lit ''{}'')) input_file = Inr (lit ''{}'')
   \<and> json_loads (python3 [(lit ''{}'', JDict [])]) (lit ''{}'') = Some (JDict [])
   \<and> \<not> array_of_mappings (JDict [])
   \<and> main (python3 [(lit ''{}'', JDict [])]) (disk (lit ''{}''))
       = \<lparr>final = (disk (lit ''{}''))\<lparr>files := (files (disk (lit ''{}'')))(output_file \<mapsto>
                     lit ''# Netscape HTTP Cookie File'' @ NL @ NL)\<rparr>,
          stdout = [lit ''No cookies found in JSON. Aborting.''], status = 1, uncaught = None\<rparr>"
proof -
  have l: "json_loads (python3 [(lit ''{}'', JDict [])]) (lit ''{}'') = Some (JDict [])"
    by (simp add: fixture_facts)
  have b: "with_body (python3 [(lit ''{}'', JDict [])]) (JDict []) = (header, None)"
    by (simp add: with_body_iter)
  from main_loaded [OF fixture_facts(1) fixture_facts(3) l fixture_facts(4) b] show ?thesis
    by (simp add: fixture_facts l header_def)
qed

text \<open>What decides is whether \<^verbatim>\<open>json.load\<close> raises, not whether the content is JSON:
  the load accepts the literals \<^verbatim>\<open>NaN\<close> and \<^verbatim>\<open>Infinity\<close>, which JSON does not have,
  and a record that holds one outside its expiration date is converted.\<close>

lemma nan_literal_converts:
  "main (python3 [(nan_doc, JList [nan_cookie])]) (disk nan_doc)
     = \<lparr>final = (disk nan_doc)\<lparr>files := (files (disk nan_doc))(output_file \<mapsto>
                   lit ''# Netscape HTTP Cookie File'' @ NL @ NL
                   @ TAB @ lit ''FALSE'' @ TAB @ lit ''/'' @ TAB @ lit ''TRUE'' @ TAB
                   @ lit ''2147483647'' @ TAB @ TAB @ NL)\<rparr>,
        stdout = [lit ''Converted 1 cookies from JSON to Netscape format.'',
                  lit ''Saved to ../config/cookies.txt.'',
                  lit ''Conversion complete.''],
        status = 0, uncaught = None\<rparr>"
proof -
  let ?rt = "python3 [(nan_doc, JList [nan_cookie])]"
  let ?line = "TAB @ lit ''FALSE'' @ TAB @ lit ''/'' @ TAB @ lit ''TRUE'' @ TAB
               @ lit ''2147483647'' @ TAB @ TAB @ NL"
  have l: "json_loads ?rt nan_doc = Some (JList [nan_cookie])"
    by (simp add: fixture_facts)
  have "cookie_line ?rt nan_cookie = Inr ?line"
    by (simp add: cookie_line_def cookie_items_dict nan_cookie_def dict_get_def
        py_str_default bind_exn_def lit_Nil)
  then have ls: "map (cookie_line ?rt) [nan_cookie] = map Inr [?line]"
    by simp
  have enc: "\<forall>l\<in>set [?line]. can_encode ?rt l"
    by (simp add: can_encode_def lit_def TAB_def NL_def)
  have one: "py_str 1 = lit ''1''"
    by (simp add: py_str_def str_nat.simps)
  have "main ?rt (disk nan_doc) =
     \<lparr>final = (disk nan_doc)\<lparr>files := (files (disk nan_doc))(output_file \<mapsto>
                 header @ concat [?line])\<rparr>,
      stdout = summary (length [nan_cookie]), status = 0, uncaught = None\<rparr>"
    by (rule main_success [OF fixture_facts(1) fixture_facts(3) l _ fixture_facts(4) ls enc])
      simp
  then show ?thesis
    by (simp add: header_def summary_def one output_file_def, simp add: lit_def)
qed

subsection \<open>What the result of a run depends on\<close>










end
